theory Spec2Isabelle
  imports Complex_Main "HOL-Library.AList" "HOL-Library.Monad_Syntax"
begin

section \<open>The gateway client of \<^verbatim>\<open>spacetraders_utils.py\<close>\<close>

text \<open>
  Python dictionaries keep insertion order and overwrite in place; they are association
  lists here, written with \<open>AList.update\<close> and read with \<open>map_of\<close>. Points in time
  (\<^verbatim>\<open>datetime.now()\<close>) and durations (\<^verbatim>\<open>total_seconds()\<close>) are seconds as real numbers:
  the float arithmetic of the source is read as exact arithmetic.
\<close>

subsection \<open>Constants\<close>

definition TOKENS_FILE :: string where
  "TOKENS_FILE = ''agent_tokens.json''"

definition RATE_LIMIT_REQUESTS :: int where
  "RATE_LIMIT_REQUESTS = 2"

definition RATE_LIMIT_PERIOD :: int where
  "RATE_LIMIT_PERIOD = 1"

subsection \<open>Client state\<close>

type_synonym 'v dict = "(string \<times> 'v) list"

record client =
  base_url :: string
  tokens :: "string dict"
  last_request_time :: real
  account_token :: "string option"

text \<open>Truth value of an \<^verbatim>\<open>Optional[str]\<close>: \<^verbatim>\<open>None\<close> and the empty string are false.\<close>

fun truthy :: "string option \<Rightarrow> bool" where
  "truthy None = False"
| "truthy (Some s) = (s \<noteq> [])"

definition get_token :: "client \<Rightarrow> string \<Rightarrow> string option" where
  "get_token c agent_symbol = map_of (tokens c) agent_symbol"

subsection \<open>Requests\<close>

record request =
  http_method :: string
  url :: string
  headers :: "string dict"
  kwargs :: "string dict"

record response =
  status_code :: int
  content :: string

text \<open>The exceptions of the source, each with its message (\<^verbatim>\<open>str(e)\<close>).\<close>

datatype error =
    ValueError string
  | RequestException string
  | OSError string
  | JSONDecodeError string
  | AttributeError string
  | TypeError string

text \<open>
  What a call does, in order: a call of \<^verbatim>\<open>time.sleep\<close> with its argument, an assignment to
  \<^verbatim>\<open>self.last_request_time\<close> with the value assigned, a call of \<^verbatim>\<open>requests.request\<close>.
\<close>

datatype event = Sleep real | Stamp real | Http request

subsection \<open>Rate limiting\<close>

text \<open>
  \<open>rate_limit c now1 now2\<close>: \<open>now1\<close> is what the first \<^verbatim>\<open>datetime.now()\<close> returns,
  \<open>now2\<close> what the second returns (after the sleep, if any). The result is the events
  of the call and the client afterwards.
\<close>

definition rate_limit :: "client \<Rightarrow> real \<Rightarrow> real \<Rightarrow> event list \<times> client" where
  "rate_limit c now1 now2 =
     (let elapsed = now1 - last_request_time c;
          sleeps = (if elapsed < 1 / real_of_int RATE_LIMIT_REQUESTS
                    then [Sleep (1 / real_of_int RATE_LIMIT_REQUESTS - elapsed)]
                    else [])
      in (sleeps @ [Stamp now2], c\<lparr>last_request_time := now2\<rparr>))"

subsection \<open>Dispatch\<close>

text \<open>
  The surroundings of one \<^verbatim>\<open>make_request\<close>: the two clock readings of the rate limiter
  and the answer of \<^verbatim>\<open>requests.request\<close> (\<open>Inl\<close> when it raises, for instance on a
  refused connection).
\<close>

record env =
  now1 :: real
  now2 :: real
  transport :: "request \<Rightarrow> string + response"

definition missing_key_message :: string where
  "missing_key_message = ''SPACETRADERS_API_KEY not found in environment variables''"

text \<open>\<^verbatim>\<open>endpoint.lstrip('/')\<close>.\<close>

definition lstrip_slash :: "string \<Rightarrow> string" where
  "lstrip_slash s = dropWhile (\<lambda>ch. ch = CHR ''/'') s"

text \<open>
  \<open>make_request c e method endpoint agent_symbol use_account_token hdrs kw\<close>: \<open>hdrs\<close> is
  the \<^verbatim>\<open>headers\<close> keyword argument (empty when it is not given), \<open>kw\<close> the other keyword
  arguments, which are passed on. The result is the client afterwards, the events in
  order, and the response or the exception. A Python condition on an \<^verbatim>\<open>Optional[str]\<close>
  is false for \<^verbatim>\<open>None\<close> and for the empty string: each \<open>case\<close> below has both.
\<close>

definition make_request ::
  "client \<Rightarrow> env \<Rightarrow> string \<Rightarrow> string \<Rightarrow> string option \<Rightarrow> bool \<Rightarrow> string dict \<Rightarrow> string dict
     \<Rightarrow> client \<times> event list \<times> (error + response)" where
  "make_request c e meth endpoint agent_symbol use_account_token hdrs kw =
     (let (evs, c1) = rate_limit c (now1 e) (now2 e);
          u = base_url c1 @ ''/'' @ lstrip_slash endpoint;
          h1 = AList.update ''Content-Type'' ''application/json'' hdrs;
          send = (\<lambda>h. let rq = \<lparr>http_method = meth, url = u, headers = h, kwargs = kw\<rparr>
                       in (c1, evs @ [Http rq],
                           case transport e rq of
                             Inl msg \<Rightarrow> Inl (RequestException msg)
                           | Inr r \<Rightarrow> Inr r))
      in if use_account_token then
           (case account_token c1 of
              None \<Rightarrow> (c1, evs, Inl (ValueError missing_key_message))
            | Some tok \<Rightarrow>
                if tok = [] then (c1, evs, Inl (ValueError missing_key_message))
                else send (AList.update ''Authorization'' (''Bearer '' @ tok) h1))
         else
           (case agent_symbol of
              None \<Rightarrow> send h1
            | Some symb \<Rightarrow>
                if symb = [] then send h1
                else
                  (case get_token c1 symb of
                     None \<Rightarrow> send h1
                   | Some token \<Rightarrow>
                       if token = [] then send h1
                       else send (AList.update ''Authorization'' (''Bearer '' @ token) h1))))"

text \<open>The requests among the events of a call.\<close>

fun requests_of :: "event list \<Rightarrow> request list" where
  "requests_of [] = []"
| "requests_of (Sleep d # evs) = requests_of evs"
| "requests_of (Stamp t # evs) = requests_of evs"
| "requests_of (Http rq # evs) = rq # requests_of evs"

text \<open>
  The token that the agent branch of \<open>make_request\<close> finds: none for a missing or empty
  symbol and for a missing or empty stored token. It is used to state properties.
\<close>

definition agent_credential :: "client \<Rightarrow> string option \<Rightarrow> string option" where
  "agent_credential c agent_symbol =
     (case agent_symbol of
        None \<Rightarrow> None
      | Some s \<Rightarrow>
          if s = [] then None
          else (case get_token c s of
                  None \<Rightarrow> None
                | Some tok \<Rightarrow> if tok = [] then None else Some tok))"

text \<open>The values assigned to \<^verbatim>\<open>self.last_request_time\<close> among the events of a call.\<close>

fun stamps_of :: "event list \<Rightarrow> real list" where
  "stamps_of [] = []"
| "stamps_of (Sleep d # evs) = stamps_of evs"
| "stamps_of (Stamp t # evs) = t # stamps_of evs"
| "stamps_of (Http rq # evs) = stamps_of evs"

subsection \<open>Example values\<close>

definition example_client :: client where
  "example_client =
     \<lparr>base_url = ''https://api.spacetraders.io/v2'', tokens = [(''ALPHA'', ''tok123'')],
      last_request_time = 10, account_token = Some ''acct''\<rparr>"

definition ok_transport :: "request \<Rightarrow> string + response" where
  "ok_transport rq = Inr \<lparr>status_code = 200, content = ''{}''\<rparr>"

definition refusing_transport :: "request \<Rightarrow> string + response" where
  "refusing_transport rq = Inl ''Connection refused''"

definition example_env :: env where
  "example_env = \<lparr>now1 = 51 / 5, now2 = 21 / 2, transport = ok_transport\<rparr>"

definition refusing_env :: env where
  "refusing_env = \<lparr>now1 = 51 / 5, now2 = 21 / 2, transport = refusing_transport\<rparr>"

section \<open>The token file\<close>

subsection \<open>JSON values and the \<^verbatim>\<open>json\<close> module\<close>

text \<open>
  The Python values that \<^verbatim>\<open>json.load\<close> returns and \<^verbatim>\<open>json.dump\<close> accepts: \<^verbatim>\<open>None\<close>, booleans,
  integers, floats, strings, lists, and dictionaries with string keys.
\<close>

datatype json =
    JNull
  | JBool bool
  | JInt int
  | JFloat real
  | JString string
  | JArray "json list"
  | JObject "(string \<times> json) list"

text \<open>
  The functions of the \<^verbatim>\<open>json\<close> module that the source calls are not part of it; they are
  parameters. \<open>dumps\<close> is \<^verbatim>\<open>json.dumps(obj)\<close>, \<open>dump_indent2\<close> is the text that
  \<^verbatim>\<open>json.dump(obj, f, indent=2)\<close> writes, \<open>loads\<close> is \<^verbatim>\<open>json.load\<close> on a text, \<open>Inl\<close> with
  the message when it raises \<^verbatim>\<open>JSONDecodeError\<close>.
\<close>

record json_module =
  dumps :: "json \<Rightarrow> string"
  dump_indent2 :: "json \<Rightarrow> string"
  loads :: "string \<Rightarrow> string + json"

text \<open>A \<^verbatim>\<open>Dict[str, str]\<close> as a JSON value, and back.\<close>

definition json_of_tokens :: "string dict \<Rightarrow> json" where
  "json_of_tokens ts = JObject (map (\<lambda>(k, v). (k, JString v)) ts)"

fun string_values :: "(string \<times> json) list \<Rightarrow> string dict option" where
  "string_values [] = Some []"
| "string_values ((k, JString v) # kvs) = map_option (\<lambda>ts. (k, v) # ts) (string_values kvs)"
| "string_values ((k, _) # kvs) = None"

fun tokens_of_json :: "json \<Rightarrow> string dict option" where
  "tokens_of_json (JObject kvs) = string_values kvs"
| "tokens_of_json _ = None"

subsection \<open>The file\<close>

text \<open>
  The file \<open>TOKENS_FILE\<close> as the client sees it: \<open>present\<close> is what
  \<^verbatim>\<open>tokens_path.exists()\<close> returns; \<open>read_error\<close> and \<open>write_error\<close> hold the message of the
  \<^verbatim>\<open>OSError\<close> that opening the file for reading or for writing raises, if it does;
  \<open>contents\<close> is the text of the file.
\<close>

record storage =
  present :: bool
  read_error :: "string option"
  write_error :: "string option"
  contents :: string

definition load_tokens :: "json_module \<Rightarrow> storage \<Rightarrow> error + json" where
  "load_tokens js st =
     (if present st then
        (case read_error st of
           Some msg \<Rightarrow> Inl (OSError msg)
         | None \<Rightarrow>
             (case loads js (contents st) of
                Inl msg \<Rightarrow> Inl (JSONDecodeError msg)
              | Inr v \<Rightarrow> Inr v))
      else Inr (JObject []))"

definition save_tokens :: "json_module \<Rightarrow> client \<Rightarrow> storage \<Rightarrow> error + storage" where
  "save_tokens js c st =
     (case write_error st of
        Some msg \<Rightarrow> Inl (OSError msg)
      | None \<Rightarrow> Inr (st\<lparr>present := True, contents := dump_indent2 js (json_of_tokens (tokens c))\<rparr>))"

text \<open>
  \<open>store_token\<close> assigns in the dictionary first and saves then: when saving raises, the
  client has the new entry and the file is as before.
\<close>

definition store_token ::
  "json_module \<Rightarrow> client \<Rightarrow> storage \<Rightarrow> string \<Rightarrow> string \<Rightarrow> client \<times> storage \<times> (error + unit)" where
  "store_token js c st agent_symbol token =
     (let c1 = c\<lparr>tokens := AList.update agent_symbol token (tokens c)\<rparr>
      in case save_tokens js c1 st of
           Inl err \<Rightarrow> (c1, st, Inl err)
         | Inr st1 \<Rightarrow> (c1, st1, Inr ()))"

section \<open>The \<^verbatim>\<open>json\<close> module\<close>

text \<open>
  \<^verbatim>\<open>json.dumps\<close>, \<^verbatim>\<open>json.dump\<close> and \<^verbatim>\<open>json.load\<close> belong to the standard library. The
  definitions of the source take them as parameters; this section gives them as CPython 3.11 has
  them (\<^verbatim>\<open>json/encoder.py\<close>, \<^verbatim>\<open>json/decoder.py\<close>, \<^verbatim>\<open>json/scanner.py\<close>, with the arguments
  that the source passes), so that what \<open>save_tokens\<close> writes can be read by
  \<open>load_tokens\<close>. Strings are lists of 8-bit characters, the code points below 256. Left
  out of the library are: the escape \<^verbatim>\<open>\uXXXX\<close> of a code point above 255, which has no
  counterpart among these characters (the reader rejects it); the text of a float and
  the float of a text, which are the parameters \<open>float_repr\<close> and \<open>float_of\<close>; and the
  bounds of Python on the depth of nesting and on the digits of an integer.
\<close>

subsection \<open>Integers as text\<close>

text \<open>\<^verbatim>\<open>str(n)\<close> for an integer.\<close>

fun digits :: "nat \<Rightarrow> string" where
  "digits n = (if n < 10 then [char_of (48 + n)] else digits (n div 10) @ [char_of (48 + n mod 10)])"

definition str_int :: "int \<Rightarrow> string" where
  "str_int i = (if i < 0 then ''-'' @ digits (nat (- i)) else digits (nat i))"

subsection \<open>Writing\<close>

fun join :: "string \<Rightarrow> string list \<Rightarrow> string" where
  "join sep [] = []"
| "join sep [x] = x"
| "join sep (x # y # ys) = x @ sep @ join sep (y # ys)"

definition hex_digit :: "nat \<Rightarrow> char" where
  "hex_digit d = (if d < 10 then char_of (48 + d) else char_of (87 + d))"

text \<open>
  \<^verbatim>\<open>ensure_ascii\<close> is on: the quote, the backslash and every character outside of
  \<open>0x20\<close> to \<open>0x7E\<close> are escaped, with a letter where \<^verbatim>\<open>ESCAPE_DCT\<close> has one and as
  \<^verbatim>\<open>\u00XX\<close>, in lower case, otherwise.
\<close>

definition escape_char :: "char \<Rightarrow> string" where
  "escape_char ch =
     (if ch = CHR 0x22 then [CHR 0x5C, CHR 0x22]
      else if ch = CHR 0x5C then [CHR 0x5C, CHR 0x5C]
      else if ch = CHR 0x08 then [CHR 0x5C, CHR ''b'']
      else if ch = CHR 0x0C then [CHR 0x5C, CHR ''f'']
      else if ch = CHR 0x0A then [CHR 0x5C, CHR ''n'']
      else if ch = CHR 0x0D then [CHR 0x5C, CHR ''r'']
      else if ch = CHR 0x09 then [CHR 0x5C, CHR ''t'']
      else if (of_char ch :: nat) < 32 \<or> 126 < (of_char ch :: nat)
      then [CHR 0x5C, CHR ''u'', CHR ''0'', CHR ''0'',
            hex_digit (of_char ch div 16), hex_digit (of_char ch mod 16)]
      else [ch])"

definition encode_basestring_ascii :: "string \<Rightarrow> string" where
  "encode_basestring_ascii s = [CHR 0x22] @ concat (map escape_char s) @ [CHR 0x22]"

text \<open>
  \<open>indent\<close> is the keyword argument \<^verbatim>\<open>indent\<close>, \<open>None\<close> when it is not given. With an indent
  the items are separated by a comma and a new line, without it by a comma and a blank;
  the key separator is a colon and a blank in both cases.
\<close>

definition newline_indent :: "nat option \<Rightarrow> nat \<Rightarrow> string" where
  "newline_indent indent level =
     (case indent of None \<Rightarrow> [] | Some n \<Rightarrow> CHR 0x0A # replicate (n * level) (CHR '' ''))"

definition item_separator :: "nat option \<Rightarrow> string" where
  "item_separator indent = (case indent of None \<Rightarrow> '', '' | Some n \<Rightarrow> '','')"

fun iterencode :: "(real \<Rightarrow> string) \<Rightarrow> nat option \<Rightarrow> nat \<Rightarrow> json \<Rightarrow> string" where
  "iterencode float_repr indent level JNull = ''null''"
| "iterencode float_repr indent level (JBool b) = (if b then ''true'' else ''false'')"
| "iterencode float_repr indent level (JInt i) = str_int i"
| "iterencode float_repr indent level (JFloat r) = float_repr r"
| "iterencode float_repr indent level (JString s) = encode_basestring_ascii s"
| "iterencode float_repr indent level (JArray xs) =
     (if xs = [] then ''[]''
      else ''['' @ newline_indent indent (Suc level)
           @ join (item_separator indent @ newline_indent indent (Suc level))
               (map (iterencode float_repr indent (Suc level)) xs)
           @ newline_indent indent level @ '']'')"
| "iterencode float_repr indent level (JObject kvs) =
     (if kvs = [] then ''{}''
      else ''{'' @ newline_indent indent (Suc level)
           @ join (item_separator indent @ newline_indent indent (Suc level))
               (map (\<lambda>(k, v). encode_basestring_ascii k @ '': ''
                                @ iterencode float_repr indent (Suc level) v) kvs)
           @ newline_indent indent level @ ''}'')"

text \<open>An entry of a dictionary of strings as \<open>iterencode\<close> writes it, to state properties.\<close>

definition write_entry :: "string \<times> string \<Rightarrow> string" where
  "write_entry kv = encode_basestring_ascii (fst kv) @ '': '' @ encode_basestring_ascii (snd kv)"

subsection \<open>Reading\<close>

text \<open>
  A scan of a text gives the value read and the text after it, or (\<open>Inl\<close>) the message of
  the \<^verbatim>\<open>JSONDecodeError\<close> and the text from the position of the error on.
\<close>

type_synonym 'a scan = "(string \<times> string) + ('a \<times> string)"

definition is_space :: "char \<Rightarrow> bool" where
  "is_space ch = (ch = CHR '' '' \<or> ch = CHR 0x09 \<or> ch = CHR 0x0A \<or> ch = CHR 0x0D)"

definition skip_space :: "string \<Rightarrow> string" where
  "skip_space s = dropWhile is_space s"

definition hex_val :: "char \<Rightarrow> nat option" where
  "hex_val ch =
     (let n = (of_char ch :: nat)
      in if 48 \<le> n \<and> n \<le> 57 then Some (n - 48)
         else if 97 \<le> n \<and> n \<le> 102 then Some (n - 87)
         else if 65 \<le> n \<and> n \<le> 70 then Some (n - 55)
         else None)"

fun hex4 :: "string \<Rightarrow> nat option" where
  "hex4 [a, b, c, d] =
     (case (hex_val a, hex_val b, hex_val c, hex_val d) of
        (Some w, Some x, Some y, Some z) \<Rightarrow> Some (((w * 16 + x) * 16 + y) * 16 + z)
      | _ \<Rightarrow> None)"
| "hex4 _ = None"

text \<open>The character after a backslash (\<^verbatim>\<open>BACKSLASH\<close>).\<close>

definition unescape_char :: "char \<Rightarrow> char option" where
  "unescape_char ch =
     (if ch = CHR 0x22 then Some (CHR 0x22)
      else if ch = CHR 0x5C then Some (CHR 0x5C)
      else if ch = CHR ''/'' then Some (CHR ''/'')
      else if ch = CHR ''b'' then Some (CHR 0x08)
      else if ch = CHR ''f'' then Some (CHR 0x0C)
      else if ch = CHR ''n'' then Some (CHR 0x0A)
      else if ch = CHR ''r'' then Some (CHR 0x0D)
      else if ch = CHR ''t'' then Some (CHR 0x09)
      else None)"

definition cons_char :: "char \<Rightarrow> string scan \<Rightarrow> string scan" where
  "cons_char ch p = (case p of Inl e \<Rightarrow> Inl e | Inr (s, rest) \<Rightarrow> Inr (ch # s, rest))"

text \<open>
  \<open>scanstring begin s\<close> reads the characters of a string up to its closing quote: \<open>s\<close>
  is the text after the opening quote, \<open>begin\<close> the text from the opening quote on. A
  character below \<open>0x20\<close> is not allowed in a string (\<^verbatim>\<open>strict\<close>).
\<close>

fun scanstring :: "string \<Rightarrow> string \<Rightarrow> string scan" where
  "scanstring begin [] = Inl (''Unterminated string starting at'', begin)"
| "scanstring begin (x # r) =
     (if x = CHR 0x22 then Inr ([], r)
      else if x = CHR 0x5C then
        (case r of
           [] \<Rightarrow> Inl (''Unterminated string starting at'', begin)
         | y # r1 \<Rightarrow>
             if y = CHR ''u'' then
               (case hex4 (take 4 r1) of
                  None \<Rightarrow> Inl (''Invalid '' @ [CHR 0x5C] @ ''uXXXX escape'', r)
                | Some n \<Rightarrow>
                    if n < 256 then cons_char (char_of n) (scanstring begin (drop 4 r1))
                    else Inl (''Invalid '' @ [CHR 0x5C] @ ''uXXXX escape'', r))
             else
               (case unescape_char y of
                  None \<Rightarrow> Inl (''Invalid '' @ [CHR 0x5C] @ ''escape'', x # r)
                | Some ch \<Rightarrow> cons_char ch (scanstring begin r1)))
      else if (of_char x :: nat) < 32 then Inl (''Invalid control character at'', x # r)
      else cons_char x (scanstring begin r))"

text \<open>
  A number (\<^verbatim>\<open>NUMBER_RE\<close>): an optional minus sign, the integer part (a zero, or digits
  that do not start with a zero), an optional fraction (a point and digits) and an
  optional exponent. With a fraction or an exponent it is a float, otherwise an integer.
\<close>

definition is_digit :: "char \<Rightarrow> bool" where
  "is_digit ch = (48 \<le> (of_char ch :: nat) \<and> (of_char ch :: nat) \<le> 57)"

definition nat_of_digits :: "string \<Rightarrow> nat" where
  "nat_of_digits ds = foldl (\<lambda>n ch. 10 * n + (of_char ch - 48)) 0 ds"

definition integer_part :: "string \<Rightarrow> (string \<times> string) option" where
  "integer_part s =
     (case s of
        [] \<Rightarrow> None
      | x # r \<Rightarrow>
          if x = CHR ''0'' then Some ([x], r)
          else if is_digit x then Some (x # takeWhile is_digit r, dropWhile is_digit r)
          else None)"

definition fraction_part :: "string \<Rightarrow> string \<times> string" where
  "fraction_part s =
     (case s of
        x # y # r \<Rightarrow>
          if x = CHR ''.'' \<and> is_digit y then (x # y # takeWhile is_digit r, dropWhile is_digit r)
          else ([], s)
      | _ \<Rightarrow> ([], s))"

definition exponent_part :: "string \<Rightarrow> string \<times> string" where
  "exponent_part s =
     (case s of
        [] \<Rightarrow> ([], s)
      | x # r \<Rightarrow>
          if x = CHR ''e'' \<or> x = CHR ''E'' then
            (let (sign, r1) = (case r of
                                 [] \<Rightarrow> ([], r)
                               | y # r' \<Rightarrow> if y = CHR ''+'' \<or> y = CHR ''-'' then ([y], r') else ([], r))
             in case r1 of
                  [] \<Rightarrow> ([], s)
                | z # r2 \<Rightarrow>
                    if is_digit z then (x # sign @ z # takeWhile is_digit r2, dropWhile is_digit r2)
                    else ([], s))
          else ([], s))"

definition match_number :: "(string \<Rightarrow> real) \<Rightarrow> string \<Rightarrow> (json \<times> string) option" where
  "match_number float_of s =
     (let (sign, s1) = (case s of
                          [] \<Rightarrow> ([], s)
                        | x # r \<Rightarrow> if x = CHR ''-'' then ([x], r) else ([], s))
      in case integer_part s1 of
           None \<Rightarrow> None
         | Some (ds, s2) \<Rightarrow>
             (let (frac, s3) = fraction_part s2;
                  (ex, s4) = exponent_part s3
              in if frac = [] \<and> ex = []
                 then Some (JInt (if sign = [] then int (nat_of_digits ds)
                                  else - int (nat_of_digits ds)), s2)
                 else Some (JFloat (float_of (sign @ ds @ frac @ ex)), s4)))"

text \<open>\<^verbatim>\<open>dict(pairs)\<close>: a key that comes again keeps its place and takes the later value.\<close>

definition dict_of_pairs :: "(string \<times> json) list \<Rightarrow> (string \<times> json) list" where
  "dict_of_pairs kvs = foldl (\<lambda>d (k, v). AList.update k v d) [] kvs"

text \<open>
  \<open>scan_once\<close> reads a value at the start of a text. \<open>JSONObject\<close> reads the members of a
  dictionary from the first key on, \<open>JSONArray\<close> the items of a list from the first item
  on: the text after the opening brace or bracket that is not white space, when this is
  not the closing one. The second argument bounds the depth of the calls; every call
  that lowers it has read at least one character before.
\<close>

fun scan_once :: "(string \<Rightarrow> real) \<Rightarrow> nat \<Rightarrow> string \<Rightarrow> json scan"
  and JSONObject :: "(string \<Rightarrow> real) \<Rightarrow> nat \<Rightarrow> string \<Rightarrow> (string \<times> json) list scan"
  and JSONArray :: "(string \<Rightarrow> real) \<Rightarrow> nat \<Rightarrow> string \<Rightarrow> json list scan" where
  "scan_once float_of 0 s = Inl (''Expecting value'', s)"
| "scan_once float_of (Suc n) s =
     (case s of
        [] \<Rightarrow> Inl (''Expecting value'', s)
      | x # r \<Rightarrow>
          if x = CHR 0x22 then
            (case scanstring s r of
               Inl e \<Rightarrow> Inl e
             | Inr (v, r1) \<Rightarrow> Inr (JString v, r1))
          else if x = CHR ''{'' then
            (if take 1 (skip_space r) = ''}'' then Inr (JObject [], drop 1 (skip_space r))
             else (case JSONObject float_of n (skip_space r) of
                     Inl e \<Rightarrow> Inl e
                   | Inr (kvs, r1) \<Rightarrow> Inr (JObject (dict_of_pairs kvs), r1)))
          else if x = CHR ''['' then
            (if take 1 (skip_space r) = '']'' then Inr (JArray [], drop 1 (skip_space r))
             else (case JSONArray float_of n (skip_space r) of
                     Inl e \<Rightarrow> Inl e
                   | Inr (vs, r1) \<Rightarrow> Inr (JArray vs, r1)))
          else if take 4 s = ''null'' then Inr (JNull, drop 4 s)
          else if take 4 s = ''true'' then Inr (JBool True, drop 4 s)
          else if take 5 s = ''false'' then Inr (JBool False, drop 5 s)
          else
            (case match_number float_of s of
               Some (v, r1) \<Rightarrow> Inr (v, r1)
             | None \<Rightarrow>
                 if take 3 s = ''NaN'' then Inr (JFloat (float_of ''nan''), drop 3 s)
                 else if take 8 s = ''Infinity'' then Inr (JFloat (float_of ''inf''), drop 8 s)
                 else if take 9 s = ''-Infinity'' then Inr (JFloat (float_of ''-inf''), drop 9 s)
                 else Inl (''Expecting value'', s)))"
| "JSONObject float_of 0 s = Inl (''Expecting value'', s)"
| "JSONObject float_of (Suc n) s =
     (if take 1 s \<noteq> [CHR 0x22]
      then Inl (''Expecting property name enclosed in double quotes'', s)
      else
        (case scanstring s (drop 1 s) of
           Inl e \<Rightarrow> Inl e
         | Inr (k, r1) \<Rightarrow>
             if take 1 (skip_space r1) \<noteq> '':''
             then Inl (''Expecting '' @ [CHR 0x27] @ '':'' @ [CHR 0x27] @ '' delimiter'', skip_space r1)
             else
               (case scan_once float_of n (skip_space (drop 1 (skip_space r1))) of
                  Inl e \<Rightarrow> Inl e
                | Inr (v, r2) \<Rightarrow>
                    if take 1 (skip_space r2) = ''}'' then Inr ([(k, v)], drop 1 (skip_space r2))
                    else if take 1 (skip_space r2) = '',''
                    then (case JSONObject float_of n (skip_space (drop 1 (skip_space r2))) of
                            Inl e \<Rightarrow> Inl e
                          | Inr (kvs, r3) \<Rightarrow> Inr ((k, v) # kvs, r3))
                    else Inl (''Expecting '' @ [CHR 0x27] @ '','' @ [CHR 0x27] @ '' delimiter'',
                              skip_space r2))))"
| "JSONArray float_of 0 s = Inl (''Expecting value'', s)"
| "JSONArray float_of (Suc n) s =
     (case scan_once float_of n s of
        Inl e \<Rightarrow> Inl e
      | Inr (v, r1) \<Rightarrow>
          if take 1 (skip_space r1) = '']'' then Inr ([v], drop 1 (skip_space r1))
          else if take 1 (skip_space r1) = '',''
          then (case JSONArray float_of n (skip_space (drop 1 (skip_space r1))) of
                  Inl e \<Rightarrow> Inl e
                | Inr (vs, r2) \<Rightarrow> Inr (v # vs, r2))
          else Inl (''Expecting '' @ [CHR 0x27] @ '','' @ [CHR 0x27] @ '' delimiter'', skip_space r1))"

text \<open>
  The text of a \<^verbatim>\<open>JSONDecodeError\<close>: the message with the line, the column and the index
  of the position, which is where \<open>rest\<close> starts in \<open>doc\<close>.
\<close>

definition errmsg :: "string \<Rightarrow> string \<Rightarrow> string \<Rightarrow> string" where
  "errmsg msg doc rest =
     (let pos = length doc - length rest;
          head = take pos doc;
          lineno = Suc (length (filter (\<lambda>ch. ch = CHR 0x0A) head));
          colno = Suc (length (takeWhile (\<lambda>ch. ch \<noteq> CHR 0x0A) (rev head)))
      in msg @ '': line '' @ digits lineno @ '' column '' @ digits colno
         @ '' (char '' @ digits pos @ '')'')"

text \<open>\<^verbatim>\<open>json.loads\<close>; \<^verbatim>\<open>json.load\<close> is \<^verbatim>\<open>json.loads\<close> on the text of the file.\<close>

definition json_loads :: "(string \<Rightarrow> real) \<Rightarrow> string \<Rightarrow> string + json" where
  "json_loads float_of s =
     (case scan_once float_of (Suc (length s)) (skip_space s) of
        Inl (msg, rest) \<Rightarrow> Inl (errmsg msg s rest)
      | Inr (v, r) \<Rightarrow>
          if skip_space r = [] then Inr v else Inl (errmsg ''Extra data'' s (skip_space r)))"

definition python_json :: "(real \<Rightarrow> string) \<Rightarrow> (string \<Rightarrow> real) \<Rightarrow> json_module" where
  "python_json float_repr float_of =
     \<lparr>dumps = iterencode float_repr None 0,
      dump_indent2 = iterencode float_repr (Some 2) 0,
      loads = json_loads float_of\<rparr>"

subsection \<open>Example values\<close>

text \<open>The examples have no floats: any two functions can stand for the parameters.\<close>

definition example_json :: json_module where
  "example_json = python_json (\<lambda>r. ''0.0'') (\<lambda>s. 0)"

definition example_storage :: storage where
  "example_storage = \<lparr>present = False, read_error = None, write_error = None, contents = []\<rparr>"

section \<open>Registration (\<^verbatim>\<open>Register_Users\<close> of \<^verbatim>\<open>main.py\<close>)\<close>

subsection \<open>Strings\<close>

text \<open>
  Strings are lists of 8-bit characters, so the functions of \<^verbatim>\<open>str\<close> are given on the
  code points below 256.
\<close>

text \<open>\<^verbatim>\<open>str.isspace\<close> on one character.\<close>

definition py_isspace :: "char \<Rightarrow> bool" where
  "py_isspace ch =
     (ch \<in> set [CHR 0x09, CHR 0x0A, CHR 0x0B, CHR 0x0C, CHR 0x0D, CHR 0x1C, CHR 0x1D, CHR 0x1E,
                CHR 0x1F, CHR 0x20, CHR 0x85, CHR 0xA0])"

text \<open>\<^verbatim>\<open>text.split()\<close>: the maximal runs of characters that are not white space.\<close>

fun split_from :: "string \<Rightarrow> string \<Rightarrow> string list" where
  "split_from cur [] = (if cur = [] then [] else [cur])"
| "split_from cur (x # xs) =
     (if py_isspace x then (if cur = [] then split_from [] xs else cur # split_from [] xs)
      else split_from (cur @ [x]) xs)"

definition split :: "string \<Rightarrow> string list" where
  "split s = split_from [] s"

text \<open>\<^verbatim>\<open>str.lower\<close>.\<close>

definition lower_char :: "char \<Rightarrow> char" where
  "lower_char ch =
     (let n = (of_char ch :: nat)
      in if (65 \<le> n \<and> n \<le> 90) \<or> (192 \<le> n \<and> n \<le> 222 \<and> n \<noteq> 215)
         then char_of (n + 32) else ch)"

definition lower :: "string \<Rightarrow> string" where
  "lower s = map lower_char s"

subsection \<open>Reading the callsign and the faction\<close>

text \<open>
  The loop over \<^verbatim>\<open>enumerate(parts)\<close>: a word equal to \<open>callsign:\<close> or \<open>faction:\<close>, in any
  case of letters, that has a next word sets the callsign or the faction to that word;
  the last such word wins. The pair is the callsign and the faction so far.
\<close>

fun scan_parts :: "string list \<Rightarrow> string option \<times> string \<Rightarrow> string option \<times> string" where
  "scan_parts [] acc = acc"
| "scan_parts [w] acc = acc"
| "scan_parts (w # nxt # ws) (callsign, faction) =
     scan_parts (nxt # ws)
       (if lower w = ''callsign:'' then (Some nxt, faction)
        else if lower w = ''faction:'' then (callsign, nxt)
        else (callsign, faction))"

subsection \<open>Dictionaries from JSON\<close>

definition type_name :: "json \<Rightarrow> string" where
  "type_name v =
     (case v of
        JNull \<Rightarrow> ''NoneType'' | JBool b \<Rightarrow> ''bool'' | JInt i \<Rightarrow> ''int'' | JFloat r \<Rightarrow> ''float''
      | JString s \<Rightarrow> ''str'' | JArray xs \<Rightarrow> ''list'' | JObject kvs \<Rightarrow> ''dict'')"

text \<open>\<^verbatim>\<open>v.get(key, default)\<close>: only a dictionary has \<^verbatim>\<open>get\<close>.\<close>

definition py_get :: "json \<Rightarrow> string \<Rightarrow> json \<Rightarrow> error + json" where
  "py_get v key dflt =
     (case v of
        JObject kvs \<Rightarrow> Inr (case map_of kvs key of None \<Rightarrow> dflt | Some x \<Rightarrow> x)
      | _ \<Rightarrow> Inl (AttributeError ([CHR 0x27] @ type_name v @ [CHR 0x27]
                    @ '' object has no attribute '' @ [CHR 0x27] @ ''get'' @ [CHR 0x27])))"

text \<open>
  A value inside an f-string: a string as it is; for every other value the text that
  \<^verbatim>\<open>str\<close> gives, which is a parameter.
\<close>

definition py_str :: "(json \<Rightarrow> string) \<Rightarrow> json \<Rightarrow> string" where
  "py_str str_other v = (case v of JString s \<Rightarrow> s | _ \<Rightarrow> str_other v)"

fun message :: "error \<Rightarrow> string" where
  "message (ValueError m) = m"
| "message (RequestException m) = m"
| "message (OSError m) = m"
| "message (JSONDecodeError m) = m"
| "message (AttributeError m) = m"
| "message (TypeError m) = m"

subsection \<open>The token dictionary at run time\<close>

text \<open>
  \<^verbatim>\<open>tokens\<close> is a \<^verbatim>\<open>Dict[str, str]\<close> by its annotation, and \<open>client\<close> has it so. The
  annotation is not checked: \<open>Register_Users\<close> stores what it finds in the body of the
  response, whatever its type. The client after a registration therefore has a dictionary
  whose keys and values are any values that a JSON body can hold.
\<close>

type_synonym pydict = "(json \<times> json) list"

record dyn_client =
  dyn_base_url :: string
  dyn_tokens :: pydict
  dyn_last_request_time :: real
  dyn_account_token :: "string option"

text \<open>A dictionary of strings as such a dictionary, and a client with it.\<close>

definition widen :: "string dict \<Rightarrow> pydict" where
  "widen ts = map (\<lambda>(k, v). (JString k, JString v)) ts"

definition dynamic :: "client \<Rightarrow> dyn_client" where
  "dynamic c =
     \<lparr>dyn_base_url = base_url c, dyn_tokens = widen (tokens c),
      dyn_last_request_time = last_request_time c, dyn_account_token = account_token c\<rparr>"

text \<open>
  A list and a dictionary cannot be keys. Keys are compared with \<^verbatim>\<open>==\<close>: booleans,
  integers and floats by their value as numbers (\<^verbatim>\<open>True == 1 == 1.0\<close>), \<^verbatim>\<open>None\<close> and
  strings with their like only.
\<close>

fun hashable :: "json \<Rightarrow> bool" where
  "hashable (JArray xs) = False"
| "hashable (JObject kvs) = False"
| "hashable v = True"

fun number :: "json \<Rightarrow> real option" where
  "number (JBool b) = Some (if b then 1 else 0)"
| "number (JInt i) = Some (real_of_int i)"
| "number (JFloat r) = Some r"
| "number v = None"

definition key_eq :: "json \<Rightarrow> json \<Rightarrow> bool" where
  "key_eq a b =
     (case (number a, number b) of
        (Some x, Some y) \<Rightarrow> x = y
      | (None, None) \<Rightarrow> a = b
      | _ \<Rightarrow> False)"

text \<open>\<^verbatim>\<open>d[k] = v\<close> for a key that can be one: an entry with an equal key keeps its key and
  its place and takes the value, otherwise the entry is added at the end.\<close>

fun setitem :: "pydict \<Rightarrow> json \<Rightarrow> json \<Rightarrow> pydict" where
  "setitem [] k v = [(k, v)]"
| "setitem ((k', v') # d) k v =
     (if key_eq k' k then (k', v) # d else (k', v') # setitem d k v)"

text \<open>
  What \<^verbatim>\<open>json.dump\<close> makes of a dictionary: a key that is not a string is written as the
  text that JSON has for it (for a float the text that \<^verbatim>\<open>str\<close> gives). Two keys may get
  the same text; both entries are written.
\<close>

definition dump_key :: "(json \<Rightarrow> string) \<Rightarrow> json \<Rightarrow> string" where
  "dump_key str_other k =
     (case k of
        JString s \<Rightarrow> s
      | JFloat r \<Rightarrow> str_other k
      | JBool b \<Rightarrow> (if b then ''true'' else ''false'')
      | JNull \<Rightarrow> ''null''
      | JInt i \<Rightarrow> str_int i
      | _ \<Rightarrow> [])"

definition json_of_pydict :: "(json \<Rightarrow> string) \<Rightarrow> pydict \<Rightarrow> json" where
  "json_of_pydict str_other d = JObject (map (\<lambda>(k, v). (dump_key str_other k, v)) d)"

text \<open>
  \<^verbatim>\<open>_save_tokens\<close> and \<^verbatim>\<open>store_token\<close> on such a client and with a symbol and a token of
  any type: the statements are those of \<open>save_tokens\<close> and \<open>store_token\<close>; the assignment
  raises \<^verbatim>\<open>TypeError\<close> for a key that cannot be one, before anything has changed.
\<close>

definition save_tokens_dyn ::
  "json_module \<Rightarrow> (json \<Rightarrow> string) \<Rightarrow> dyn_client \<Rightarrow> storage \<Rightarrow> error + storage" where
  "save_tokens_dyn js str_other w st =
     (case write_error st of
        Some msg \<Rightarrow> Inl (OSError msg)
      | None \<Rightarrow>
          Inr (st\<lparr>present := True,
                  contents := dump_indent2 js (json_of_pydict str_other (dyn_tokens w))\<rparr>))"

definition store_token_dyn ::
  "json_module \<Rightarrow> (json \<Rightarrow> string) \<Rightarrow> dyn_client \<Rightarrow> storage \<Rightarrow> json \<Rightarrow> json
     \<Rightarrow> dyn_client \<times> storage \<times> (error + unit)" where
  "store_token_dyn js str_other w st agent_symbol token =
     (if \<not> hashable agent_symbol
      then (w, st, Inl (TypeError (''unhashable type: '' @ [CHR 0x27] @ type_name agent_symbol
                                    @ [CHR 0x27])))
      else
        (let w1 = w\<lparr>dyn_tokens := setitem (dyn_tokens w) agent_symbol token\<rparr>
         in case save_tokens_dyn js str_other w1 st of
              Inl err \<Rightarrow> (w1, st, Inl err)
            | Inr st1 \<Rightarrow> (w1, st1, Inr ())))"

subsection \<open>The tool\<close>

definition initialization_message :: string where
  "initialization_message = ''Server initialization not complete. Please wait and try again.''"

definition callsign_message :: string where
  "callsign_message =
     ''Please provide a callsign for registration. Format: '' @ [CHR 0x27]
     @ ''Register with callsign: CALLSIGN and faction: FACTION'' @ [CHR 0x27]"

text \<open>
  The branch for status 201, from the parsed body on. A body without \<open>data.token\<close> or
  \<open>data.agent.symbol\<close> gives \<^verbatim>\<open>None\<close> for it, and this is what is stored.
\<close>

definition registered ::
  "json_module \<Rightarrow> (json \<Rightarrow> string) \<Rightarrow> dyn_client \<Rightarrow> storage \<Rightarrow> json
     \<Rightarrow> dyn_client \<times> storage \<times> (error + string)" where
  "registered js str_other w st result =
     (case py_get result ''data'' (JObject []) of
        Inl err \<Rightarrow> (w, st, Inl err)
      | Inr d \<Rightarrow>
     (case py_get d ''token'' JNull of
        Inl err \<Rightarrow> (w, st, Inl err)
      | Inr token \<Rightarrow>
     (case py_get d ''agent'' (JObject []) of
        Inl err \<Rightarrow> (w, st, Inl err)
      | Inr agent_data \<Rightarrow>
     (case py_get agent_data ''symbol'' JNull of
        Inl err \<Rightarrow> (w, st, Inl err)
      | Inr symbol \<Rightarrow>
     (case store_token_dyn js str_other w st symbol token of
        (w1, st1, Inl err) \<Rightarrow> (w1, st1, Inl err)
      | (w1, st1, Inr u) \<Rightarrow>
          (case py_get agent_data ''startingFaction'' JNull of
             Inl err \<Rightarrow> (w1, st1, Inl err)
           | Inr faction \<Rightarrow>
               (w1, st1,
                Inr (''Successfully registered agent '' @ py_str str_other symbol
                     @ '' with faction '' @ py_str str_other faction
                     @ ''. Token has been stored for future use.''))))))))"

text \<open>The branch for every other status.\<close>

definition registration_failed :: "(json \<Rightarrow> string) \<Rightarrow> json \<Rightarrow> int \<Rightarrow> error + string" where
  "registration_failed str_other result status =
     (case py_get result ''error'' (JObject []) of
        Inl err \<Rightarrow> Inl err
      | Inr er \<Rightarrow>
          (case py_get er ''message'' (JString ''Unknown error'') of
             Inl err \<Rightarrow> Inl err
           | Inr error_message \<Rightarrow>
               Inr (''Registration failed: '' @ py_str str_other error_message
                    @ '' (Status code: '' @ str_int status @ '')'')))"

text \<open>
  \<open>Register_Users js str_other initialized c st e txt\<close>: \<open>initialized\<close> says that the
  lifespan context is there and initialized; \<open>c\<close> is a client whose tokens are as
  annotated. The result is the client and the file afterwards, the events, and the text
  returned or the exception raised: only \<^verbatim>\<open>check_initialization\<close> raises, every exception
  of the \<^verbatim>\<open>try\<close> block becomes a text.
\<close>

definition Register_Users ::
  "json_module \<Rightarrow> (json \<Rightarrow> string) \<Rightarrow> bool \<Rightarrow> client \<Rightarrow> storage \<Rightarrow> env \<Rightarrow> string
     \<Rightarrow> dyn_client \<times> storage \<times> event list \<times> (error + string)" where
  "Register_Users js str_other initialized c st e txt =
     (if \<not> initialized then (dynamic c, st, [], Inl (ValueError initialization_message))
      else
        (case scan_parts (split txt) (None, ''COSMIC'') of
           (None, faction) \<Rightarrow> (dynamic c, st, [], Inr callsign_message)
         | (Some callsign, faction) \<Rightarrow>
             if callsign = [] then (dynamic c, st, [], Inr callsign_message)
             else
               (let registration_data =
                      JObject [(''symbol'', JString callsign), (''faction'', JString faction)];
                    (c1, evs, r) = make_request c e ''POST'' ''register'' None True []
                                     [(''data'', dumps js registration_data)];
                    caught = (\<lambda>err. ''Error during registration: '' @ message err)
                in case r of
                     Inl err \<Rightarrow> (dynamic c1, st, evs, Inr (caught err))
                   | Inr resp \<Rightarrow>
                       if status_code resp = 201 then
                         (case loads js (content resp) of
                            Inl msg \<Rightarrow> (dynamic c1, st, evs, Inr (caught (JSONDecodeError msg)))
                          | Inr result \<Rightarrow>
                              (case registered js str_other (dynamic c1) st result of
                                 (w2, st2, Inl err) \<Rightarrow> (w2, st2, evs, Inr (caught err))
                               | (w2, st2, Inr msg) \<Rightarrow> (w2, st2, evs, Inr msg)))
                       else
                         (case loads js (content resp) of
                            Inl msg \<Rightarrow> (dynamic c1, st, evs, Inr (caught (JSONDecodeError msg)))
                          | Inr result \<Rightarrow>
                              (case registration_failed str_other result (status_code resp) of
                                 Inl err \<Rightarrow> (dynamic c1, st, evs, Inr (caught err))
                               | Inr msg \<Rightarrow> (dynamic c1, st, evs, Inr msg))))))"

text \<open>The value under a key of a dictionary, to state what a body holds.\<close>

definition field :: "json \<Rightarrow> string \<Rightarrow> json option" where
  "field v key = (case v of JObject kvs \<Rightarrow> map_of kvs key | _ \<Rightarrow> None)"

subsection \<open>The registration scenario\<close>

definition registration_body :: string where
  \<open>registration_body =
     ''{"data":{"token":"tok123","agent":{"symbol":"ALPHA","startingFaction":"COSMIC"}}}''\<close>

definition rejection_body :: string where
  \<open>rejection_body = ''{"error":{"message":"Agent symbol has already been claimed."}}''\<close>

definition gateway_body :: string where
  "gateway_body = ''<html><body><h1>502 Bad Gateway</h1></body></html>''"

definition registering_env :: env where
  "registering_env =
     \<lparr>now1 = 51 / 5, now2 = 21 / 2,
      transport = (\<lambda>rq. Inr \<lparr>status_code = 201, content = registration_body\<rparr>)\<rparr>"

definition rejecting_env :: env where
  "rejecting_env =
     \<lparr>now1 = 51 / 5, now2 = 21 / 2,
      transport = (\<lambda>rq. Inr \<lparr>status_code = 409, content = rejection_body\<rparr>)\<rparr>"

definition gateway_env :: env where
  "gateway_env =
     \<lparr>now1 = 51 / 5, now2 = 21 / 2,
      transport = (\<lambda>rq. Inr \<lparr>status_code = 502, content = gateway_body\<rparr>)\<rparr>"

definition empty_body_env :: env where
  "empty_body_env =
     \<lparr>now1 = 51 / 5, now2 = 21 / 2,
      transport = (\<lambda>rq. Inr \<lparr>status_code = 201, content = ''{}''\<rparr>)\<rparr>"

definition fresh_client :: client where
  "fresh_client =
     \<lparr>base_url = ''https://api.spacetraders.io/v2'', tokens = [],
      last_request_time = 10, account_token = Some ''acct''\<rparr>"

definition scenario_request :: request where
  \<open>scenario_request =
     \<lparr>http_method = ''POST'', url = ''https://api.spacetraders.io/v2/register'',
      headers = [(''Content-Type'', ''application/json''), (''Authorization'', ''Bearer acct'')],
      kwargs = [(''data'', ''{"symbol": "ALPHA", "faction": "COSMIC"}'')]\<rparr>\<close>

definition example_str :: "json \<Rightarrow> string" where
  "example_str v = (case v of JInt i \<Rightarrow> str_int i | JBool b \<Rightarrow> (if b then ''True'' else ''False'')
                    | _ \<Rightarrow> ''None'')"

section \<open>Properties\<close>

subsection \<open>Events\<close>

lemma requests_of_append: "requests_of (xs @ ys) = requests_of xs @ requests_of ys"
  by (induction xs rule: requests_of.induct) simp_all

lemma requests_of_rate_limit: "requests_of (fst (rate_limit c t1 t2)) = []"
  by (simp add: rate_limit_def Let_def)

lemma snd_rate_limit: "snd (rate_limit c t1 t2) = c\<lparr>last_request_time := t2\<rparr>"
  by (simp add: rate_limit_def Let_def)

subsection \<open>Rate limiter\<close>

text \<open>
  C4: a call of the rate limiter whose elapsed time since \<open>last_request_time\<close> is below
  the minimal interval (the period divided by the requests per period) sleeps for exactly
  the minimal interval minus the elapsed time, and otherwise does not sleep; then it sets
  \<open>last_request_time\<close> to the second clock reading, once, after the sleep, and changes
  nothing else of the client.
\<close>

theorem rate_limit_sleep_then_stamp:
  assumes "rate_limit c t t' = (evs, c')"
  shows "(t - last_request_time c < real_of_int RATE_LIMIT_PERIOD / real_of_int RATE_LIMIT_REQUESTS \<longrightarrow>
           evs = [Sleep (real_of_int RATE_LIMIT_PERIOD / real_of_int RATE_LIMIT_REQUESTS
                          - (t - last_request_time c)), Stamp t'])
       \<and> (\<not> t - last_request_time c < real_of_int RATE_LIMIT_PERIOD / real_of_int RATE_LIMIT_REQUESTS \<longrightarrow>
           evs = [Stamp t'])
       \<and> c' = c\<lparr>last_request_time := t'\<rparr>"
  using assms by (auto simp: rate_limit_def Let_def RATE_LIMIT_PERIOD_def RATE_LIMIT_REQUESTS_def)

theorem rate_limit_sleep_then_stamp_witness:
  "rate_limit example_client (51 / 5) (21 / 2) =
     ([Sleep (3 / 10), Stamp (21 / 2)], example_client\<lparr>last_request_time := 21 / 2\<rparr>)"
  using rate_limit_sleep_then_stamp
          [where c = example_client and t = "51 / 5" and t' = "21 / 2", OF surjective_pairing]
  by (simp add: prod_eq_iff example_client_def RATE_LIMIT_PERIOD_def RATE_LIMIT_REQUESTS_def)

subsection \<open>Credential resolution\<close>



subsection \<open>Dispatch\<close>

lemma make_request_account:
  "make_request c e m ep agent_symbol True hdrs kw =
     (let evs = fst (rate_limit c (now1 e) (now2 e));
          c1 = c\<lparr>last_request_time := now2 e\<rparr>;
          rq = \<lparr>http_method = m, url = base_url c @ ''/'' @ lstrip_slash ep,
                headers = AList.update ''Authorization'' (''Bearer '' @ the (account_token c))
                            (AList.update ''Content-Type'' ''application/json'' hdrs),
                kwargs = kw\<rparr>
      in if truthy (account_token c)
         then (c1, evs @ [Http rq],
               case transport e rq of Inl msg \<Rightarrow> Inl (RequestException msg) | Inr r \<Rightarrow> Inr r)
         else (c1, evs, Inl (ValueError missing_key_message)))"
  by (simp add: make_request_def rate_limit_def Let_def split: option.splits)

lemma make_request_agent:
  "make_request c e m ep agent_symbol False hdrs kw =
     (let evs = fst (rate_limit c (now1 e) (now2 e));
          c1 = c\<lparr>last_request_time := now2 e\<rparr>;
          h1 = AList.update ''Content-Type'' ''application/json'' hdrs;
          rq = \<lparr>http_method = m, url = base_url c @ ''/'' @ lstrip_slash ep,
                headers = (case agent_credential c agent_symbol of
                             None \<Rightarrow> h1
                           | Some tok \<Rightarrow> AList.update ''Authorization'' (''Bearer '' @ tok) h1),
                kwargs = kw\<rparr>
      in (c1, evs @ [Http rq],
          case transport e rq of Inl msg \<Rightarrow> Inl (RequestException msg) | Inr r \<Rightarrow> Inr r))"
  by (simp add: make_request_def rate_limit_def Let_def agent_credential_def get_token_def
        split: option.splits)

text \<open>
  C3: a dispatch with \<open>use_account_token\<close> on a client without account token (none, or the
  empty string) raises the local error and makes no network call.
\<close>

theorem missing_account_token_raises:
  assumes "\<not> truthy (account_token c)"
  shows "\<exists>c' evs. make_request c e m ep agent_symbol True hdrs kw
                     = (c', evs, Inl (ValueError missing_key_message))
                 \<and> requests_of evs = []"
  using assms
  by (simp add: make_request_account Let_def requests_of_rate_limit)

theorem missing_account_token_raises_witness:
  "\<not> truthy (account_token (example_client\<lparr>account_token := None\<rparr>))
   \<and> (\<exists>c' evs. make_request (example_client\<lparr>account_token := None\<rparr>) example_env
                   ''POST'' ''register'' None True [] []
                     = (c', evs, Inl (ValueError missing_key_message))
                 \<and> requests_of evs = [])"
proof -
  have h: "\<not> truthy (account_token (example_client\<lparr>account_token := None\<rparr>))"
    by simp
  from missing_account_token_raises [OF h] h show ?thesis by blast
qed

text \<open>
  C2 as stated fails: an agent symbol without stored token and an \<open>Authorization\<close> header
  among the caller's headers give a request that carries this header.
\<close>

theorem unauthenticated_fallback_counterexample:
  "get_token example_client ''GHOST'' = None
   \<and> make_request example_client example_env ''GET'' ''my/agent'' (Some ''GHOST'') False
        [(''Authorization'', ''Bearer mine'')] []
     = (example_client\<lparr>last_request_time := 21 / 2\<rparr>,
        [Sleep (3 / 10), Stamp (21 / 2),
         Http \<lparr>http_method = ''GET'', url = ''https://api.spacetraders.io/v2/my/agent'',
               headers = [(''Authorization'', ''Bearer mine''),
                          (''Content-Type'', ''application/json'')],
               kwargs = []\<rparr>],
        Inr \<lparr>status_code = 200, content = ''{}''\<rparr>)"
  by (simp add: make_request_def rate_limit_def Let_def example_client_def example_env_def
        ok_transport_def lstrip_slash_def RATE_LIMIT_REQUESTS_def get_token_def)

text \<open>
  C2, amended: a dispatch with an agent symbol, without \<open>use_account_token\<close>, whose symbol
  has no stored token sends exactly one request and raises no local error; the dispatcher
  adds no \<open>Authorization\<close> header, so the request has the caller's \<open>Authorization\<close> entry
  and none when the caller gave none. The result is what the transport returns.
\<close>

theorem unauthenticated_fallback:
  assumes "make_request c e m ep (Some s) False hdrs kw = (c', evs, res)"
      and "get_token c s = None"
  shows "\<exists>rq. requests_of evs = [rq]
            \<and> map_of (headers rq) ''Authorization'' = map_of hdrs ''Authorization''
            \<and> (map_of hdrs ''Authorization'' = None \<longrightarrow> ''Authorization'' \<notin> fst ` set (headers rq))
            \<and> res = (case transport e rq of Inl msg \<Rightarrow> Inl (RequestException msg) | Inr r \<Rightarrow> Inr r)
            \<and> (\<forall>msg. res \<noteq> Inl (ValueError msg))"
proof -
  let ?rq = "\<lparr>http_method = m, url = base_url c @ ''/'' @ lstrip_slash ep,
              headers = AList.update ''Content-Type'' ''application/json'' hdrs, kwargs = kw\<rparr>"
  have none: "agent_credential c (Some s) = None"
    using assms(2) by (simp add: agent_credential_def)
  from assms(1) have evs: "evs = fst (rate_limit c (now1 e) (now2 e)) @ [Http ?rq]"
    and res: "res = (case transport e ?rq of Inl msg \<Rightarrow> Inl (RequestException msg) | Inr r \<Rightarrow> Inr r)"
    by (simp_all add: make_request_agent Let_def none)
  have sent: "requests_of evs = [?rq]"
    by (simp add: evs requests_of_append requests_of_rate_limit)
  have auth: "map_of (headers ?rq) ''Authorization'' = map_of hdrs ''Authorization''"
    by (simp add: AList.update_conv')
  have absent: "map_of hdrs ''Authorization'' = None \<longrightarrow> ''Authorization'' \<notin> fst ` set (headers ?rq)"
    by (simp add: map_of_eq_None_iff AList.dom_update)
  have local: "\<forall>msg. res \<noteq> Inl (ValueError msg)"
    by (simp add: res split: sum.splits)
  show ?thesis
    by (rule exI [of _ ?rq]) (intro conjI sent auth absent res local)
qed

theorem unauthenticated_fallback_witness:
  "make_request example_client example_env ''GET'' ''my/agent'' (Some ''GHOST'') False [] []
     = (example_client\<lparr>last_request_time := 21 / 2\<rparr>,
        [Sleep (3 / 10), Stamp (21 / 2),
         Http \<lparr>http_method = ''GET'', url = ''https://api.spacetraders.io/v2/my/agent'',
               headers = [(''Content-Type'', ''application/json'')], kwargs = []\<rparr>],
        Inr \<lparr>status_code = 200, content = ''{}''\<rparr>)
   \<and> get_token example_client ''GHOST'' = None
   \<and> (\<exists>rq. requests_of [Sleep (3 / 10), Stamp (21 / 2),
         Http \<lparr>http_method = ''GET'', url = ''https://api.spacetraders.io/v2/my/agent'',
               headers = [(''Content-Type'', ''application/json'')], kwargs = []\<rparr>] = [rq]
         \<and> ''Authorization'' \<notin> fst ` set (headers rq))"
proof -
  have call: "make_request example_client example_env ''GET'' ''my/agent'' (Some ''GHOST'') False [] []
     = (example_client\<lparr>last_request_time := 21 / 2\<rparr>,
        [Sleep (3 / 10), Stamp (21 / 2),
         Http \<lparr>http_method = ''GET'', url = ''https://api.spacetraders.io/v2/my/agent'',
               headers = [(''Content-Type'', ''application/json'')], kwargs = []\<rparr>],
        Inr \<lparr>status_code = 200, content = ''{}''\<rparr>)"
    by (simp add: make_request_def rate_limit_def Let_def example_client_def example_env_def
          ok_transport_def lstrip_slash_def RATE_LIMIT_REQUESTS_def get_token_def)
  have absent: "get_token example_client ''GHOST'' = None"
    by (simp add: get_token_def example_client_def)
  from unauthenticated_fallback [OF call absent] call absent
  show ?thesis by auto
qed

subsection \<open>Slots and network calls\<close>

lemma stamps_of_append: "stamps_of (xs @ ys) = stamps_of xs @ stamps_of ys"
  by (induction xs rule: stamps_of.induct) simp_all

lemma stamps_of_rate_limit: "stamps_of (fst (rate_limit c t t')) = [t']"
  by (simp add: rate_limit_def Let_def)

lemma rate_limit_ends_with_stamp: "\<exists>pre. fst (rate_limit c t t') = pre @ [Stamp t']"
  by (simp add: rate_limit_def Let_def)

lemma no_requests_no_http: "requests_of xs = [] \<Longrightarrow> Http rq \<notin> set xs"
  by (induction xs rule: requests_of.induct) auto

lemma make_request_events:
  assumes "make_request c e m ep agent_symbol use_account_token hdrs kw = (c', evs, res)"
  shows "c' = c\<lparr>last_request_time := now2 e\<rparr>
       \<and> (evs = fst (rate_limit c (now1 e) (now2 e)) \<and> use_account_token \<and> \<not> truthy (account_token c)
              \<and> res = Inl (ValueError missing_key_message)
          \<or> (\<exists>rq. evs = fst (rate_limit c (now1 e) (now2 e)) @ [Http rq]
                \<and> \<not> (use_account_token \<and> \<not> truthy (account_token c))
                \<and> res = (case transport e rq of Inl msg \<Rightarrow> Inl (RequestException msg) | Inr r \<Rightarrow> Inr r)))"
proof (cases use_account_token)
  case True
  with assms show ?thesis
    by (auto simp: make_request_account Let_def split: if_splits)
next
  case False
  with assms show ?thesis
    by (auto simp: make_request_agent Let_def)
qed

text \<open>
  C5 as stated fails: a dispatch with \<open>use_account_token\<close> and no account token consumes
  its slot and makes no network call.
\<close>

theorem one_network_call_counterexample:
  "make_request (example_client\<lparr>account_token := None\<rparr>) example_env
       ''POST'' ''register'' None True [] []
     = (example_client\<lparr>account_token := None, last_request_time := 21 / 2\<rparr>,
        [Sleep (3 / 10), Stamp (21 / 2)],
        Inl (ValueError missing_key_message))
   \<and> requests_of [Sleep (3 / 10), Stamp (21 / 2)] = []"
  by (simp add: make_request_def rate_limit_def Let_def example_client_def example_env_def
        RATE_LIMIT_REQUESTS_def)

text \<open>
  C5, amended: every dispatch consumes exactly one slot: it assigns \<open>last_request_time\<close>
  once, before any network call, and the client afterwards has the new value whatever the
  outcome, also when the network call raises. It makes exactly one network call, except
  with \<open>use_account_token\<close> and no account token, where it makes none.
\<close>

theorem one_slot_at_most_one_network_call:
  assumes "make_request c e m ep agent_symbol use_account_token hdrs kw = (c', evs, res)"
  shows "c' = c\<lparr>last_request_time := now2 e\<rparr>
       \<and> stamps_of evs = [now2 e]
       \<and> length (requests_of evs)
           = (if use_account_token \<and> \<not> truthy (account_token c) then 0 else 1)
       \<and> (\<forall>pre rq post. evs = pre @ Http rq # post \<longrightarrow> Stamp (now2 e) \<in> set pre)
       \<and> (\<forall>rq msg. rq \<in> set (requests_of evs) \<and> transport e rq = Inl msg \<longrightarrow>
             res = Inl (RequestException msg) \<and> last_request_time c' = now2 e)"
proof -
  obtain pre0 where pre0: "fst (rate_limit c (now1 e) (now2 e)) = pre0 @ [Stamp (now2 e)]"
    using rate_limit_ends_with_stamp by blast
  have nohttp: "requests_of pre0 = []"
    using requests_of_rate_limit [of c "now1 e" "now2 e"] by (simp add: pre0 requests_of_append)
  from make_request_events [OF assms] show ?thesis
  proof (elim conjE disjE exE)
    assume c': "c' = c\<lparr>last_request_time := now2 e\<rparr>"
      and evs: "evs = fst (rate_limit c (now1 e) (now2 e))"
      and missing: "use_account_token" "\<not> truthy (account_token c)"
    have none: "requests_of evs = []"
      by (simp add: evs requests_of_rate_limit)
    have order: "\<forall>pre rq post. evs = pre @ Http rq # post \<longrightarrow> Stamp (now2 e) \<in> set pre"
    proof (intro allI impI)
      fix pre rq post
      assume "evs = pre @ Http rq # post"
      then have "Http rq \<in> set evs" by simp
      with no_requests_no_http [OF none] show "Stamp (now2 e) \<in> set pre" by blast
    qed
    from c' missing none order show ?thesis
      by (simp add: evs stamps_of_rate_limit)
  next
    fix rq
    assume c': "c' = c\<lparr>last_request_time := now2 e\<rparr>"
      and evs: "evs = fst (rate_limit c (now1 e) (now2 e)) @ [Http rq]"
      and ok: "\<not> (use_account_token \<and> \<not> truthy (account_token c))"
      and res: "res = (case transport e rq of Inl msg \<Rightarrow> Inl (RequestException msg) | Inr r \<Rightarrow> Inr r)"
    have order: "\<forall>pre rq' post. evs = pre @ Http rq' # post \<longrightarrow> Stamp (now2 e) \<in> set pre"
    proof (intro allI impI)
      fix pre rq' post
      assume split: "evs = pre @ Http rq' # post"
      have "evs = (pre0 @ [Stamp (now2 e)]) @ Http rq # []"
        by (simp add: evs pre0)
      with split have "pre @ Http rq' # post = (pre0 @ [Stamp (now2 e)]) @ Http rq # []"
        by simp
      moreover have "Http rq' \<notin> set (pre0 @ [Stamp (now2 e)])"
        using no_requests_no_http [OF nohttp, of rq'] by simp
      ultimately have "pre = pre0 @ [Stamp (now2 e)]"
        by (auto simp: append_eq_append_conv2 append_eq_Cons_conv Cons_eq_append_conv)
      then show "Stamp (now2 e) \<in> set pre" by simp
    qed
    from c' evs ok res order show ?thesis
      by (auto simp: stamps_of_append stamps_of_rate_limit requests_of_append requests_of_rate_limit)
  qed
qed

theorem one_slot_at_most_one_network_call_witness:
  "make_request example_client refusing_env ''GET'' ''/my/agent'' (Some ''ALPHA'') False [] []
     = (example_client\<lparr>last_request_time := 21 / 2\<rparr>,
        [Sleep (3 / 10), Stamp (21 / 2),
         Http \<lparr>http_method = ''GET'', url = ''https://api.spacetraders.io/v2/my/agent'',
               headers = [(''Content-Type'', ''application/json''),
                          (''Authorization'', ''Bearer tok123'')],
               kwargs = []\<rparr>],
        Inl (RequestException ''Connection refused''))
   \<and> stamps_of [Sleep (3 / 10), Stamp (21 / 2),
         Http \<lparr>http_method = ''GET'', url = ''https://api.spacetraders.io/v2/my/agent'',
               headers = [(''Content-Type'', ''application/json''),
                          (''Authorization'', ''Bearer tok123'')],
               kwargs = []\<rparr>] = [now2 refusing_env]
   \<and> last_request_time (example_client\<lparr>last_request_time := 21 / 2\<rparr>) = now2 refusing_env"
proof -
  have call: "make_request example_client refusing_env ''GET'' ''/my/agent'' (Some ''ALPHA'') False [] []
     = (example_client\<lparr>last_request_time := 21 / 2\<rparr>,
        [Sleep (3 / 10), Stamp (21 / 2),
         Http \<lparr>http_method = ''GET'', url = ''https://api.spacetraders.io/v2/my/agent'',
               headers = [(''Content-Type'', ''application/json''),
                          (''Authorization'', ''Bearer tok123'')],
               kwargs = []\<rparr>],
        Inl (RequestException ''Connection refused''))"
    by (simp add: make_request_def rate_limit_def Let_def example_client_def refusing_env_def
          refusing_transport_def lstrip_slash_def RATE_LIMIT_REQUESTS_def get_token_def)
  from one_slot_at_most_one_network_call [OF call] call
  show ?thesis by (simp add: refusing_env_def)
qed

subsection \<open>Headers\<close>

text \<open>
  C10: every request sent, whatever the method and the other keyword arguments, has
  \<open>Content-Type: application/json\<close>, also when the caller's headers had another value for
  it; every caller header other than \<open>Content-Type\<close> and \<open>Authorization\<close> is passed on with
  its value, and no other header appears; \<open>Authorization\<close> is the caller's, or
  \<open>Bearer\<close> with the account token or the agent's stored token.
\<close>

theorem content_type_forced_other_headers_kept:
  assumes "make_request c e m ep agent_symbol use_account_token hdrs kw = (c', evs, res)"
      and "rq \<in> set (requests_of evs)"
  shows "map_of (headers rq) ''Content-Type'' = Some ''application/json''
       \<and> (\<forall>k. k \<noteq> ''Content-Type'' \<and> k \<noteq> ''Authorization'' \<longrightarrow>
             map_of (headers rq) k = map_of hdrs k)
       \<and> (map_of (headers rq) ''Authorization'' = map_of hdrs ''Authorization''
            \<or> (\<exists>tok. tok \<noteq> [] \<and> map_of (headers rq) ''Authorization'' = Some (''Bearer '' @ tok)
                  \<and> (if use_account_token then account_token c = Some tok
                      else agent_credential c agent_symbol = Some tok)))
       \<and> http_method rq = m \<and> kwargs rq = kw"
proof (cases use_account_token)
  case True
  with assms show ?thesis
    by (cases "account_token c")
       (auto simp: make_request_account Let_def requests_of_append requests_of_rate_limit
          AList.update_conv' split: if_splits)
next
  case False
  with assms show ?thesis
    by (cases "agent_credential c agent_symbol")
       (auto simp: make_request_agent Let_def requests_of_append requests_of_rate_limit
          AList.update_conv' agent_credential_def split: if_splits option.splits)
qed

theorem content_type_forced_other_headers_kept_witness:
  "make_request example_client example_env ''GET'' ''my/agent'' None False
       [(''Content-Type'', ''text/plain''), (''X-Trace'', ''7'')] []
     = (example_client\<lparr>last_request_time := 21 / 2\<rparr>,
        [Sleep (3 / 10), Stamp (21 / 2),
         Http \<lparr>http_method = ''GET'', url = ''https://api.spacetraders.io/v2/my/agent'',
               headers = [(''Content-Type'', ''application/json''), (''X-Trace'', ''7'')],
               kwargs = []\<rparr>],
        Inr \<lparr>status_code = 200, content = ''{}''\<rparr>)
   \<and> map_of [(''Content-Type'', ''application/json''), (''X-Trace'', ''7'')] ''Content-Type''
       = Some ''application/json''
   \<and> map_of [(''Content-Type'', ''application/json''), (''X-Trace'', ''7'')] ''X-Trace''
       = map_of [(''Content-Type'', ''text/plain''), (''X-Trace'', ''7'')] ''X-Trace''"
proof -
  let ?rq = "\<lparr>http_method = ''GET'', url = ''https://api.spacetraders.io/v2/my/agent'',
               headers = [(''Content-Type'', ''application/json''), (''X-Trace'', ''7'')],
               kwargs = []\<rparr>"
  have call: "make_request example_client example_env ''GET'' ''my/agent'' None False
       [(''Content-Type'', ''text/plain''), (''X-Trace'', ''7'')] []
     = (example_client\<lparr>last_request_time := 21 / 2\<rparr>,
        [Sleep (3 / 10), Stamp (21 / 2), Http ?rq],
        Inr \<lparr>status_code = 200, content = ''{}''\<rparr>)"
    by (simp add: make_request_def rate_limit_def Let_def example_client_def example_env_def
          ok_transport_def lstrip_slash_def RATE_LIMIT_REQUESTS_def)
  have mem: "?rq \<in> set (requests_of [Sleep (3 / 10), Stamp (21 / 2), Http ?rq])"
    by simp
  from content_type_forced_other_headers_kept [OF call mem] call
  show ?thesis by simp
qed

subsection \<open>Dictionaries of strings as JSON\<close>

lemma string_values_json: "string_values (map (\<lambda>(k, v). (k, JString v)) ts) = Some ts"
  by (induction ts) auto

lemma tokens_of_json_of_tokens: "tokens_of_json (json_of_tokens ts) = Some ts"
  by (simp add: json_of_tokens_def string_values_json)

subsection \<open>Loading and saving\<close>

text \<open>
  C6: loading gives the empty dictionary, without error, when the file does not exist;
  when it exists, loading raises if the file cannot be read or if its text is not JSON,
  and a value returned is the one that \<^verbatim>\<open>json.load\<close> read from the text, never a silent
  empty dictionary.
\<close>

theorem load_tokens_missing_or_raises:
  "(\<not> present st \<longrightarrow> load_tokens js st = Inr (JObject []))
   \<and> (present st \<and> read_error st = Some msg \<longrightarrow> load_tokens js st = Inl (OSError msg))
   \<and> (present st \<and> read_error st = None \<and> loads js (contents st) = Inl msg \<longrightarrow>
         load_tokens js st = Inl (JSONDecodeError msg))
   \<and> (present st \<and> load_tokens js st = Inr v \<longrightarrow>
         read_error st = None \<and> loads js (contents st) = Inr v)"
  by (auto simp: load_tokens_def split: option.splits sum.splits)

theorem load_tokens_missing_or_raises_witness:
  "load_tokens example_json example_storage = Inr (JObject [])
   \<and> load_tokens example_json
        (example_storage\<lparr>present := True, read_error := Some ''Permission denied''\<rparr>)
       = Inl (OSError ''Permission denied'')
   \<and> load_tokens example_json (example_storage\<lparr>present := True, contents := ''{oops''\<rparr>)
       = Inl (JSONDecodeError
                ''Expecting property name enclosed in double quotes: line 1 column 2 (char 1)'')"
proof -
  have malformed: "loads example_json (contents (example_storage\<lparr>present := True, contents := ''{oops''\<rparr>))
      = Inl ''Expecting property name enclosed in double quotes: line 1 column 2 (char 1)''"
    by code_simp
  show ?thesis
    using load_tokens_missing_or_raises [where st = example_storage and js = example_json]
      load_tokens_missing_or_raises
        [where st = "example_storage\<lparr>present := True, read_error := Some ''Permission denied''\<rparr>"
           and msg = "''Permission denied''" and js = example_json]
      load_tokens_missing_or_raises
        [where st = "example_storage\<lparr>present := True, contents := ''{oops''\<rparr>"
           and msg = "''Expecting property name enclosed in double quotes: line 1 column 2 (char 1)''"
           and js = example_json]
      malformed
    by (simp add: example_storage_def)
qed

subsection \<open>Reading back what \<^verbatim>\<open>json.dump\<close> wrote\<close>

lemma hex_val_hex_digit: "d < 16 \<Longrightarrow> hex_val (hex_digit d) = Some d"
  by (auto simp: hex_val_def hex_digit_def Let_def)

lemma hex4_escape:
  assumes "n < 256"
  shows "hex4 [CHR ''0'', CHR ''0'', hex_digit (n div 16), hex_digit (n mod 16)] = Some n"
proof -
  have zero: "hex_val (CHR ''0'') = Some 0"
    by (simp add: hex_val_def)
  from assms have "n div 16 < 16" by simp
  then have hi: "hex_val (hex_digit (n div 16)) = Some (n div 16)"
    by (rule hex_val_hex_digit)
  have lo: "hex_val (hex_digit (n mod 16)) = Some (n mod 16)"
    by (rule hex_val_hex_digit) simp
  show ?thesis
    by (simp add: zero hi lo)
qed

lemma scanstring_escape_char:
  assumes "scanstring begin rest = Inr (s, rest')"
  shows "scanstring begin (escape_char ch @ rest) = Inr (ch # s, rest')"
proof -
  have small: "(of_char ch :: nat) < 256"
    by simp
  consider (special) "ch \<in> {CHR 0x22, CHR 0x5C, CHR 0x08, CHR 0x0C, CHR 0x0A, CHR 0x0D, CHR 0x09}"
    | (coded) "ch \<notin> {CHR 0x22, CHR 0x5C, CHR 0x08, CHR 0x0C, CHR 0x0A, CHR 0x0D, CHR 0x09}"
        "(of_char ch :: nat) < 32 \<or> 126 < (of_char ch :: nat)"
    | (plain) "ch \<notin> {CHR 0x22, CHR 0x5C, CHR 0x08, CHR 0x0C, CHR 0x0A, CHR 0x0D, CHR 0x09}"
        "\<not> ((of_char ch :: nat) < 32 \<or> 126 < (of_char ch :: nat))"
    by blast
  then show ?thesis
  proof cases
    case special
    with assms show ?thesis
      by (auto simp: escape_char_def unescape_char_def cons_char_def)
  next
    case coded
    with assms hex4_escape [OF small] show ?thesis
      by (simp add: escape_char_def cons_char_def)
  next
    case plain
    with assms show ?thesis
      by (simp add: escape_char_def cons_char_def)
  qed
qed

lemma scanstring_escaped:
  "scanstring begin (concat (map escape_char s) @ CHR 0x22 # rest) = Inr (s, rest)"
  by (induction s) (simp_all add: scanstring_escape_char)

lemma scanstring_encoded:
  "scanstring begin (tl (encode_basestring_ascii s) @ rest) = Inr (s, rest)"
  by (simp add: encode_basestring_ascii_def scanstring_escaped)

lemma encode_basestring_ascii_Cons:
  "encode_basestring_ascii s = CHR 0x22 # tl (encode_basestring_ascii s)"
  by (simp add: encode_basestring_ascii_def)

lemma write_entry_Cons:
  "write_entry kv = CHR 0x22 # tl (encode_basestring_ascii (fst kv)) @ '': ''
                      @ encode_basestring_ascii (snd kv)"
  by (simp add: write_entry_def encode_basestring_ascii_def)

lemma skip_space_quote [simp]: "skip_space (CHR 0x22 # s) = CHR 0x22 # s"
  by (simp add: skip_space_def is_space_def)

lemma skip_space_newline [simp]: "skip_space (CHR 0x0A # s) = skip_space s"
  by (simp add: skip_space_def is_space_def)

lemma skip_space_blank [simp]: "skip_space (CHR '' '' # s) = skip_space s"
  by (simp add: skip_space_def is_space_def)

lemma skip_space_brace [simp]: "skip_space (CHR ''}'' # s) = CHR ''}'' # s"
  by (simp add: skip_space_def is_space_def)

lemma skip_space_comma [simp]: "skip_space (CHR '','' # s) = CHR '','' # s"
  by (simp add: skip_space_def is_space_def)

lemma join_Cons: "join sep (x # xs) = x @ (if xs = [] then [] else sep @ join sep xs)"
  by (cases xs) simp_all

lemma skip_space_blanks: "skip_space (replicate m (CHR '' '') @ s) = skip_space s"
  by (induction m) simp_all

lemma scan_once_string:
  "scan_once float_of (Suc n) (encode_basestring_ascii s @ rest) = Inr (JString s, rest)"
proof -
  have "scan_once float_of (Suc n) (CHR 0x22 # tl (encode_basestring_ascii s) @ rest)
          = Inr (JString s, rest)"
    by (simp add: scanstring_encoded)
  then show ?thesis
    by (simp add: encode_basestring_ascii_def)
qed

lemma scan_entry:
  "JSONObject float_of (Suc (Suc n)) (write_entry (k, v) @ rest) =
     (if take 1 (skip_space rest) = ''}'' then Inr ([(k, JString v)], drop 1 (skip_space rest))
      else if take 1 (skip_space rest) = '',''
      then (case JSONObject float_of (Suc n) (skip_space (drop 1 (skip_space rest))) of
              Inl e \<Rightarrow> Inl e
            | Inr (kvs, r3) \<Rightarrow> Inr ((k, JString v) # kvs, r3))
      else Inl (''Expecting '' @ [CHR 0x27] @ '','' @ [CHR 0x27] @ '' delimiter'', skip_space rest))"
proof -
  let ?s = "write_entry (k, v) @ rest"
  let ?after = "'': '' @ encode_basestring_ascii v @ rest"
  have first: "take 1 ?s = [CHR 0x22]"
    by (simp add: write_entry_def encode_basestring_ascii_def)
  have "drop 1 ?s = tl (encode_basestring_ascii k) @ ?after"
    by (simp add: write_entry_def encode_basestring_ascii_def)
  then have key: "scanstring ?s (drop 1 ?s) = Inr (k, ?after)"
    by (simp only: scanstring_encoded)
  have colon: "skip_space ?after = ?after"
    by (simp add: skip_space_def is_space_def)
  have val: "skip_space (drop 1 ?after) = encode_basestring_ascii v @ rest"
    by (simp add: encode_basestring_ascii_def)
  have sep: "take 1 ?after = '':''"
    by simp
  show ?thesis
    by (simp only: JSONObject.simps first key colon val sep scan_once_string
          sum.case prod.case if_False if_True not_True_eq_False simp_thms)
qed

lemma scan_entries:
  assumes "ts \<noteq> []" and "length ts < n"
  shows "JSONObject float_of n
           (join (CHR '','' # CHR 0x0A # replicate m (CHR '' '')) (map write_entry ts)
              @ CHR 0x0A # CHR ''}'' # rest)
         = Inr (map (\<lambda>(k, v). (k, JString v)) ts, rest)"
  using assms
proof (induction ts arbitrary: n)
  case Nil
  then show ?case by simp
next
  case (Cons kv ts)
  obtain k v where kv: "kv = (k, v)" by (cases kv)
  from Cons.prems obtain n' where n: "n = Suc (Suc n')" and fuel: "length ts < Suc n'"
    by (cases n; cases "n - 1") auto
  note IH = Cons.IH [of "Suc n'"]
  have blanks: "skip_space (replicate m (CHR '' '') @ s) = skip_space s" for s
    by (induction m) simp_all
  show ?case
  proof (cases ts)
    case Nil
    have text_eq: "join (CHR '','' # CHR 0x0A # replicate m (CHR '' '')) (map write_entry (kv # ts))
                     @ CHR 0x0A # CHR ''}'' # rest
                   = write_entry (k, v) @ (CHR 0x0A # CHR ''}'' # rest)"
      by (simp add: Nil kv)
    show ?thesis
      unfolding text_eq n scan_entry
      by (simp add: Nil kv)
  next
    case (Cons kv' ts')
    obtain k' v' where kv': "kv' = (k', v')" by (cases kv')
    let ?tail = "join (CHR '','' # CHR 0x0A # replicate m (CHR '' '')) (map write_entry ts)
                   @ CHR 0x0A # CHR ''}'' # rest"
    have start: "skip_space ?tail = ?tail"
      by (simp add: Cons kv' join_Cons write_entry_def encode_basestring_ascii_def)
    have step: "JSONObject float_of (Suc n') ?tail = Inr (map (\<lambda>(k, v). (k, JString v)) ts, rest)"
      using fuel by (intro IH) (simp add: Cons)
    have text_eq: "join (CHR '','' # CHR 0x0A # replicate m (CHR '' '')) (map write_entry (kv # ts))
                     @ CHR 0x0A # CHR ''}'' # rest
                   = write_entry (k, v) @ (CHR '','' # CHR 0x0A # replicate m (CHR '' '') @ ?tail)"
      by (simp add: Cons kv)
    have comma: "skip_space (CHR '','' # CHR 0x0A # replicate m (CHR '' '') @ ?tail)
                   = CHR '','' # CHR 0x0A # replicate m (CHR '' '') @ ?tail"
      by (simp add: skip_space_def is_space_def)
    have next_key: "skip_space (drop 1 (CHR '','' # CHR 0x0A # replicate m (CHR '' '') @ ?tail)) = ?tail"
      by (simp add: blanks start)
    show ?thesis
      unfolding text_eq n scan_entry comma next_key step
      by (simp add: kv)
  qed
qed

lemma update_fresh:
  "k \<notin> fst ` set d \<Longrightarrow> AList.update k v d = d @ [(k, v)]"
  by (induction d) auto

lemma foldl_update_distinct:
  "distinct (map fst (d @ kvs)) \<Longrightarrow>
     foldl (\<lambda>d (k, v). AList.update k v d) d kvs = d @ kvs"
proof (induction kvs arbitrary: d)
  case Nil
  then show ?case by simp
next
  case (Cons kv kvs)
  obtain k v where kv: "kv = (k, v)" by (cases kv)
  from Cons.prems have fresh: "k \<notin> fst ` set d"
    by (auto simp: kv)
  from Cons.prems have "distinct (map fst ((d @ [(k, v)]) @ kvs))"
    by (simp add: kv)
  from Cons.IH [OF this] show ?case
    by (simp add: kv update_fresh [OF fresh])
qed

lemma dict_of_pairs_distinct: "distinct (map fst kvs) \<Longrightarrow> dict_of_pairs kvs = kvs"
  using foldl_update_distinct [of "[]" kvs] by (simp add: dict_of_pairs_def)

lemma entries_of_tokens:
  "map (\<lambda>(k, v). encode_basestring_ascii k @ '': '' @ iterencode float_repr indent level v)
       (map (\<lambda>(k, v). (k, JString v)) ts) = map write_entry ts"
  by (induction ts) (auto simp: write_entry_def)

lemma iterencode_tokens:
  "iterencode float_repr (Some 2) 0 (json_of_tokens ts) =
     (if ts = [] then ''{}''
      else CHR ''{'' # CHR 0x0A # replicate 2 (CHR '' '')
             @ join (CHR '','' # CHR 0x0A # replicate 2 (CHR '' '')) (map write_entry ts)
             @ CHR 0x0A # CHR ''}'' # [])"
  by (simp add: json_of_tokens_def newline_indent_def item_separator_def comp_def
        case_prod_unfold write_entry_def [abs_def])

lemma length_join_entries: "length ts \<le> length (join sep (map write_entry ts))"
proof (induction ts)
  case Nil
  then show ?case by simp
next
  case (Cons kv ts)
  have "1 \<le> length (write_entry kv)"
    by (simp add: write_entry_def encode_basestring_ascii_def)
  with Cons show ?case
    by (simp add: join_Cons)
qed

lemma loads_dump_tokens:
  assumes "distinct (map fst ts)"
  shows "json_loads float_of (iterencode float_repr (Some 2) 0 (json_of_tokens ts))
           = Inr (json_of_tokens ts)"
proof (cases "ts = []")
  case True
  then show ?thesis
    by (simp add: json_loads_def json_of_tokens_def skip_space_def is_space_def)
next
  case False
  let ?sep = "CHR '','' # CHR 0x0A # replicate 2 (CHR '' '')"
  let ?body = "join ?sep (map write_entry ts) @ CHR 0x0A # CHR ''}'' # []"
  let ?text = "CHR ''{'' # CHR 0x0A # replicate 2 (CHR '' '') @ ?body"
  have text_eq: "iterencode float_repr (Some 2) 0 (json_of_tokens ts) = ?text"
    using False by (simp only: iterencode_tokens if_False)
  have fuel: "length ts < length ?text"
    using length_join_entries [of ts ?sep] by simp
  have body: "JSONObject float_of (length ?text) ?body
                = Inr (map (\<lambda>(k, v). (k, JString v)) ts, [])"
    by (rule scan_entries [OF False fuel])
  obtain kv ts' where ts: "ts = kv # ts'"
    using False by (cases ts) auto
  have start: "skip_space ?body = ?body"
    by (simp add: ts join_Cons write_entry_def encode_basestring_ascii_def)
  have inner: "skip_space (CHR 0x0A # replicate 2 (CHR '' '') @ ?body) = ?body"
    by (simp only: skip_space_newline skip_space_blanks start)
  have notempty: "take 1 ?body \<noteq> ''}''"
    by (simp add: ts join_Cons write_entry_def encode_basestring_ascii_def)
  have dict: "dict_of_pairs (map (\<lambda>(k, v). (k, JString v)) ts) = map (\<lambda>(k, v). (k, JString v)) ts"
    using assms by (intro dict_of_pairs_distinct) (simp add: comp_def case_prod_unfold)
  have scan: "scan_once float_of (Suc (length ?text)) ?text
                = Inr (JObject (map (\<lambda>(k, v). (k, JString v)) ts), [])"
    by (simp only: scan_once.simps list.case inner notempty body dict sum.case prod.case
          if_False if_True char.inject simp_thms)
  have top: "skip_space ?text = ?text"
    by (simp add: skip_space_def is_space_def)
  have empty_rest: "skip_space [] = []"
    by (simp add: skip_space_def)
  have "json_loads float_of ?text = Inr (JObject (map (\<lambda>(k, v). (k, JString v)) ts))"
    by (simp only: json_loads_def top scan sum.case prod.case) (simp add: empty_rest)
  then show ?thesis
    unfolding text_eq by (simp only: json_of_tokens_def)
qed

subsection \<open>The round trip of the credential store\<close>

text \<open>
  C7: after \<open>store_token\<close> for a symbol and a token, \<open>get_token\<close> for the symbol gives the
  token, also when saving raised. And for every dictionary of tokens (each key once) and
  a file that can be written and read: saving the tokens of a client and loading the file
  gives the same dictionary; after \<open>store_token\<close> the file loads as the dictionary with the
  new entry. The \<^verbatim>\<open>json\<close> module is \<open>python_json\<close>, for every text of floats.
\<close>

theorem store_get_save_load:
  "get_token (fst (store_token js c st agent_symbol token)) agent_symbol = Some token
   \<and> (distinct (map fst (tokens c)) \<and> write_error st = None \<and> read_error st = None \<longrightarrow>
        (\<exists>st'. save_tokens (python_json float_repr float_of) c st = Inr st'
            \<and> load_tokens (python_json float_repr float_of) st' = Inr (json_of_tokens (tokens c))
            \<and> tokens_of_json (json_of_tokens (tokens c)) = Some (tokens c)))
   \<and> (distinct (map fst (tokens c)) \<and> write_error st = None \<and> read_error st = None \<longrightarrow>
        (\<exists>c' st'. store_token (python_json float_repr float_of) c st agent_symbol token
                     = (c', st', Inr ())
            \<and> tokens c' = AList.update agent_symbol token (tokens c)
            \<and> load_tokens (python_json float_repr float_of) st' = Inr (json_of_tokens (tokens c'))
            \<and> tokens_of_json (json_of_tokens (tokens c')) = Some (tokens c')))"
proof -
  let ?js = "python_json float_repr float_of"
  have stored: "get_token (fst (store_token js c st agent_symbol token)) agent_symbol = Some token"
    by (simp add: store_token_def Let_def get_token_def AList.update_conv' split: sum.splits)
  have reload: "load_tokens ?js (st\<lparr>present := True, contents := dump_indent2 ?js (json_of_tokens ts)\<rparr>)
                  = Inr (json_of_tokens ts)"
    if "distinct (map fst ts)" and "read_error st = None" for ts
    using that by (simp add: load_tokens_def python_json_def loads_dump_tokens)
  have saved: "\<exists>st'. save_tokens ?js c st = Inr st'
            \<and> load_tokens ?js st' = Inr (json_of_tokens (tokens c))
            \<and> tokens_of_json (json_of_tokens (tokens c)) = Some (tokens c)"
    if keys: "distinct (map fst (tokens c))" and w: "write_error st = None"
      and r: "read_error st = None"
  proof -
    have "save_tokens ?js c st
            = Inr (st\<lparr>present := True, contents := dump_indent2 ?js (json_of_tokens (tokens c))\<rparr>)"
      by (simp add: save_tokens_def w)
    with reload [OF keys r] show ?thesis
      by (simp add: tokens_of_json_of_tokens)
  qed
  have updated: "\<exists>c' st'. store_token ?js c st agent_symbol token = (c', st', Inr ())
            \<and> tokens c' = AList.update agent_symbol token (tokens c)
            \<and> load_tokens ?js st' = Inr (json_of_tokens (tokens c'))
            \<and> tokens_of_json (json_of_tokens (tokens c')) = Some (tokens c')"
    if keys: "distinct (map fst (tokens c))" and w: "write_error st = None"
      and r: "read_error st = None"
  proof -
    let ?ts = "AList.update agent_symbol token (tokens c)"
    have keys': "distinct (map fst ?ts)"
      using keys by (rule AList.distinct_update)
    have "store_token ?js c st agent_symbol token
            = (c\<lparr>tokens := ?ts\<rparr>,
               st\<lparr>present := True, contents := dump_indent2 ?js (json_of_tokens ?ts)\<rparr>, Inr ())"
      by (simp add: store_token_def save_tokens_def Let_def w)
    with reload [OF keys' r] show ?thesis
      by (simp add: tokens_of_json_of_tokens)
  qed
  from stored saved updated show ?thesis
    by blast
qed

theorem store_get_save_load_witness:
  \<open>distinct (map fst (tokens example_client))
   \<and> write_error example_storage = None \<and> read_error example_storage = None
   \<and> store_token example_json example_client example_storage ''BETA'' ''tok9''
       = (example_client\<lparr>tokens := [(''ALPHA'', ''tok123''), (''BETA'', ''tok9'')]\<rparr>,
          example_storage\<lparr>present := True,
            contents := ''{'' @ [CHR 0x0A] @ ''  "ALPHA": "tok123",'' @ [CHR 0x0A]
                        @ ''  "BETA": "tok9"'' @ [CHR 0x0A] @ ''}''\<rparr>,
          Inr ())
   \<and> load_tokens example_json
        (example_storage\<lparr>present := True,
            contents := ''{'' @ [CHR 0x0A] @ ''  "ALPHA": "tok123",'' @ [CHR 0x0A]
                        @ ''  "BETA": "tok9"'' @ [CHR 0x0A] @ ''}''\<rparr>)
       = Inr (json_of_tokens [(''ALPHA'', ''tok123''), (''BETA'', ''tok9'')])
   \<and> get_token (example_client\<lparr>tokens := [(''ALPHA'', ''tok123''), (''BETA'', ''tok9'')]\<rparr>) ''BETA''
       = Some ''tok9''\<close>
proof -
  let ?c' = "example_client\<lparr>tokens := [(''ALPHA'', ''tok123''), (''BETA'', ''tok9'')]\<rparr>"
  let ?st' = \<open>example_storage\<lparr>present := True,
            contents := ''{'' @ [CHR 0x0A] @ ''  "ALPHA": "tok123",'' @ [CHR 0x0A]
                        @ ''  "BETA": "tok9"'' @ [CHR 0x0A] @ ''}''\<rparr>\<close>
  have keys: "distinct (map fst (tokens example_client))"
    by (simp add: example_client_def)
  have w: "write_error example_storage = None" and r: "read_error example_storage = None"
    by (simp_all add: example_storage_def)
  have text_written: \<open>iterencode (\<lambda>r. ''0.0'') (Some 2) 0
                         (json_of_tokens [(''ALPHA'', ''tok123''), (''BETA'', ''tok9'')])
      = ''{'' @ [CHR 0x0A] @ ''  "ALPHA": "tok123",'' @ [CHR 0x0A]
                        @ ''  "BETA": "tok9"'' @ [CHR 0x0A] @ ''}''\<close>
    by code_simp
  have call: "store_token example_json example_client example_storage ''BETA'' ''tok9''
                = (?c', ?st', Inr ())"
    using text_written
    by (simp add: store_token_def save_tokens_def Let_def example_json_def python_json_def
          example_client_def example_storage_def)
  from store_get_save_load
         [where js = example_json and c = example_client and st = example_storage
            and agent_symbol = "''BETA''" and token = "''tok9''"
            and float_repr = "\<lambda>r. ''0.0''" and float_of = "\<lambda>s. 0"]
       keys w r
  obtain c' st' where
      same: "store_token example_json example_client example_storage ''BETA'' ''tok9''
               = (c', st', Inr ())"
    and toks: "tokens c' = AList.update ''BETA'' ''tok9'' (tokens example_client)"
    and loaded: "load_tokens example_json st' = Inr (json_of_tokens (tokens c'))"
    and got: "get_token (fst (store_token example_json example_client example_storage
                                ''BETA'' ''tok9'')) ''BETA'' = Some ''tok9''"
    unfolding example_json_def [symmetric] by blast
  from same call have c': "c' = ?c'" and st': "st' = ?st'"
    by simp_all
  have "tokens ?c' = [(''ALPHA'', ''tok123''), (''BETA'', ''tok9'')]"
    by simp
  with loaded c' st' have "load_tokens example_json ?st'
      = Inr (json_of_tokens [(''ALPHA'', ''tok123''), (''BETA'', ''tok9'')])"
    by simp
  moreover from got call have "get_token ?c' ''BETA'' = Some ''tok9''"
    by simp
  ultimately show ?thesis
    using keys w r call by blast
qed

subsection \<open>Strings in the token dictionary at run time\<close>

lemma key_eq_strings: "key_eq (JString a) (JString b) = (a = b)"
  by (simp add: key_eq_def)

lemma setitem_widen:
  "setitem (widen ts) (JString s) (JString t) = widen (AList.update s t ts)"
  by (induction ts) (auto simp: widen_def key_eq_strings)

lemma json_of_pydict_widen: "json_of_pydict str_other (widen ts) = json_of_tokens ts"
  by (simp add: json_of_pydict_def widen_def json_of_tokens_def dump_key_def comp_def
        case_prod_unfold)

lemma store_token_dyn_strings:
  "store_token_dyn js str_other (dynamic c) st (JString s) (JString t) =
     (case store_token js c st s t of (c1, st1, r) \<Rightarrow> (dynamic c1, st1, r))"
  by (simp add: store_token_dyn_def store_token_def save_tokens_dyn_def save_tokens_def Let_def
        dynamic_def setitem_widen json_of_pydict_widen split: option.splits)

subsection \<open>Registration\<close>

lemma py_get_field:
  "field v key = Some x \<Longrightarrow> py_get v key dflt = Inr x"
  by (cases v) (simp_all add: field_def py_get_def)

lemma registered_stores:
  assumes "field result ''data'' = Some d" and "field d ''token'' = Some (JString t)"
      and "field d ''agent'' = Some a" and "field a ''symbol'' = Some (JString s)"
  shows "\<exists>r. registered js str_other (dynamic c) st result
               = (dynamic (fst (store_token js c st s t)), fst (snd (store_token js c st s t)), r)"
proof -
  obtain c1 st1 r1 where stored: "store_token js c st s t = (c1, st1, r1)"
    by (cases "store_token js c st s t") auto
  show ?thesis
  proof (cases r1)
    case (Inl err)
    with stored assms show ?thesis
      by (simp add: registered_def py_get_field store_token_dyn_strings)
  next
    case (Inr u)
    with stored assms show ?thesis
      by (cases "py_get a ''startingFaction'' JNull")
         (simp_all add: registered_def py_get_field store_token_dyn_strings)
  qed
qed

lemma registration_failed_message:
  assumes "field result ''error'' = Some er" and "field er ''message'' = Some (JString m)"
  shows "registration_failed str_other result status
           = Inr (''Registration failed: '' @ m @ '' (Status code: '' @ str_int status @ '')'')"
  using assms by (simp add: registration_failed_def py_get_field py_str_def)

lemma store_token_client:
  "fst (store_token js c st s t) = c\<lparr>tokens := AList.update s t (tokens c)\<rparr>"
  by (simp add: store_token_def Let_def split: sum.splits)

lemma store_token_file:
  "fst (snd (store_token js c st s t)) =
     (case write_error st of
        Some msg \<Rightarrow> st
      | None \<Rightarrow> st\<lparr>present := True,
                 contents := dump_indent2 js (json_of_tokens (AList.update s t (tokens c)))\<rparr>)"
  by (simp add: store_token_def save_tokens_def Let_def split: option.splits)

lemma Register_Users_response:
  assumes run: "Register_Users js str_other initialized c st e txt = (c', st', evs, out)"
      and sent: "rq \<in> set (requests_of evs)"
      and resp: "transport e rq = Inr resp"
  shows "(status_code resp = 201 \<longrightarrow>
            (case loads js (content resp) of
               Inl msg \<Rightarrow> c' = dynamic (c\<lparr>last_request_time := now2 e\<rparr>) \<and> st' = st
                            \<and> out = Inr (''Error during registration: '' @ msg)
             | Inr result \<Rightarrow>
                 (\<exists>r. registered js str_other (dynamic (c\<lparr>last_request_time := now2 e\<rparr>)) st result
                        = (c', st', r))))
       \<and> (status_code resp \<noteq> 201 \<longrightarrow>
            c' = dynamic (c\<lparr>last_request_time := now2 e\<rparr>) \<and> st' = st
            \<and> (\<forall>msg. loads js (content resp) = Inl msg \<longrightarrow>
                  out = Inr (''Error during registration: '' @ msg))
            \<and> (\<forall>result msg. loads js (content resp) = Inr result
                  \<and> registration_failed str_other result (status_code resp) = Inr msg \<longrightarrow>
                  out = Inr msg))"
proof -
  from run sent have init: initialized
    by (auto simp: Register_Users_def split: if_splits)
  from run sent init obtain callsign faction
    where parts: "scan_parts (split txt) (None, ''COSMIC'') = (Some callsign, faction)"
      and nonempty: "callsign \<noteq> []"
    by (cases "scan_parts (split txt) (None, ''COSMIC'')")
       (auto simp: Register_Users_def split: option.splits if_splits)
  let ?kw = "[(''data'', dumps js (JObject [(''symbol'', JString callsign),
                                            (''faction'', JString faction)]))]"
  obtain c1 evs1 r where call: "make_request c e ''POST'' ''register'' None True [] ?kw = (c1, evs1, r)"
    by (cases "make_request c e ''POST'' ''register'' None True [] ?kw") auto
  from run init parts nonempty call have evs: "evs = evs1"
    by (auto simp: Register_Users_def Let_def split: sum.splits option.splits if_splits prod.splits)
  from make_request_events [OF call] have c1: "c1 = c\<lparr>last_request_time := now2 e\<rparr>"
    by simp
  from make_request_events [OF call] sent resp evs have r: "r = Inr resp"
    by (auto simp: requests_of_append requests_of_rate_limit)
  from run init parts nonempty call r c1 show ?thesis
    by (auto simp: Register_Users_def Let_def split: sum.splits option.splits if_splits prod.splits)
qed

text \<open>
  A response with status 201 and the body \<open>{}\<close>: the symbol and the token are \<^verbatim>\<open>None\<close>,
  the dictionary gets the entry \<^verbatim>\<open>None: None\<close>, the file is written with it and the text
  returned reports a success.
\<close>

lemma Register_Users_empty_body:
  \<open>Register_Users example_json example_str True fresh_client example_storage empty_body_env
       ''Register with callsign: ALPHA and faction: COSMIC''
     = ((dynamic (fresh_client\<lparr>last_request_time := 21 / 2\<rparr>))\<lparr>dyn_tokens := [(JNull, JNull)]\<rparr>,
        example_storage\<lparr>present := True,
          contents := ''{'' @ [CHR 0x0A] @ ''  "null": null'' @ [CHR 0x0A] @ ''}''\<rparr>,
        [Sleep (3 / 10), Stamp (21 / 2), Http scenario_request],
        Inr ''Successfully registered agent None with faction None. Token has been stored for future use.'')\<close>
  by code_simp

text \<open>
  C8 as stated fails: a response with another status than 201 whose body is not JSON
  (here status 502 with a page of a gateway) gives the text of the decoding error, not a
  message of the remote side. The tokens and the file are as before.
\<close>

theorem registration_reports_counterexample:
  "transport gateway_env scenario_request
     = Inr \<lparr>status_code = 502, content = ''<html><body><h1>502 Bad Gateway</h1></body></html>''\<rparr>
   \<and> Register_Users example_json example_str True fresh_client example_storage gateway_env
        ''Register with callsign: ALPHA and faction: COSMIC''
     = (dynamic (fresh_client\<lparr>last_request_time := 21 / 2\<rparr>), example_storage,
        [Sleep (3 / 10), Stamp (21 / 2), Http scenario_request],
        Inr ''Error during registration: Expecting value: line 1 column 1 (char 0)'')"
proof -
  have "transport gateway_env scenario_request
     = Inr \<lparr>status_code = 502, content = ''<html><body><h1>502 Bad Gateway</h1></body></html>''\<rparr>"
    by (simp add: gateway_env_def gateway_body_def)
  moreover have "Register_Users example_json example_str True fresh_client example_storage gateway_env
        ''Register with callsign: ALPHA and faction: COSMIC''
     = (dynamic (fresh_client\<lparr>last_request_time := 21 / 2\<rparr>), example_storage,
        [Sleep (3 / 10), Stamp (21 / 2), Http scenario_request],
        Inr ''Error during registration: Expecting value: line 1 column 1 (char 0)'')"
    by code_simp
  ultimately show ?thesis
    by (rule conjI)
qed

text \<open>
  C8, amended: for a registration whose request got a response. With status 201 and a
  body that is JSON and holds a token and an agent symbol (strings, under \<open>data.token\<close> and
  \<open>data.agent.symbol\<close>) the client afterwards is the one that \<open>store_token\<close> gives for
  this symbol and this token, so it has this token for this symbol, and the file is
  written with the new dictionary when it can be written. With any other status the
  tokens and the file are as before, whatever the body; a body that is JSON and holds a
  message (a string under \<open>error.message\<close>) gives the text that holds this message as it
  is, with the status code, and a body that is not JSON gives the text of the decoding
  error.
\<close>

theorem registration_stores_or_reports:
  assumes "Register_Users js str_other initialized c st e txt = (c', st', evs, out)"
      and "rq \<in> set (requests_of evs)"
      and "transport e rq = Inr resp"
  shows "(status_code resp = 201 \<longrightarrow>
            (\<forall>result d a s t. loads js (content resp) = Inr result
                 \<and> field result ''data'' = Some d \<and> field d ''token'' = Some (JString t)
                 \<and> field d ''agent'' = Some a \<and> field a ''symbol'' = Some (JString s) \<longrightarrow>
               c' = dynamic (fst (store_token js (c\<lparr>last_request_time := now2 e\<rparr>) st s t))
               \<and> get_token (fst (store_token js (c\<lparr>last_request_time := now2 e\<rparr>) st s t)) s
                   = Some t
               \<and> dyn_tokens c' = widen (AList.update s t (tokens c))
               \<and> (write_error st = None \<longrightarrow>
                    st' = st\<lparr>present := True,
                             contents := dump_indent2 js
                                           (json_of_tokens (AList.update s t (tokens c)))\<rparr>)))
       \<and> (status_code resp \<noteq> 201 \<longrightarrow>
            dyn_tokens c' = widen (tokens c)
            \<and> c' = dynamic (c\<lparr>last_request_time := now2 e\<rparr>) \<and> st' = st
            \<and> (\<forall>result er m. loads js (content resp) = Inr result
                  \<and> field result ''error'' = Some er \<and> field er ''message'' = Some (JString m) \<longrightarrow>
                  out = Inr (''Registration failed: '' @ m @ '' (Status code: ''
                             @ str_int (status_code resp) @ '')''))
            \<and> (\<forall>msg. loads js (content resp) = Inl msg \<longrightarrow>
                  out = Inr (''Error during registration: '' @ msg)))"
proof (intro conjI impI allI)
  fix result d a s t
  assume created: "status_code resp = 201"
    and body: "loads js (content resp) = Inr result
                 \<and> field result ''data'' = Some d \<and> field d ''token'' = Some (JString t)
                 \<and> field d ''agent'' = Some a \<and> field a ''symbol'' = Some (JString s)"
  let ?c1 = "c\<lparr>last_request_time := now2 e\<rparr>"
  from Register_Users_response [OF assms] created body
  obtain r where reg: "registered js str_other (dynamic ?c1) st result = (c', st', r)"
    by auto
  from body registered_stores [of result d t a s js str_other ?c1 st] reg
  have c': "c' = dynamic (fst (store_token js ?c1 st s t))"
    and st': "st' = fst (snd (store_token js ?c1 st s t))"
    by auto
  show "c' = dynamic (fst (store_token js ?c1 st s t))" by (rule c')
  show "get_token (fst (store_token js ?c1 st s t)) s = Some t"
    by (simp add: store_token_client get_token_def AList.update_conv')
  show "dyn_tokens c' = widen (AList.update s t (tokens c))"
    by (simp add: c' store_token_client dynamic_def)
  show "st' = st\<lparr>present := True,
                  contents := dump_indent2 js (json_of_tokens (AList.update s t (tokens c)))\<rparr>"
    if "write_error st = None"
    using that by (simp add: st' store_token_file)
next
  assume other: "status_code resp \<noteq> 201"
  from Register_Users_response [OF assms] other
  have same: "c' = dynamic (c\<lparr>last_request_time := now2 e\<rparr>)" "st' = st"
    and raised: "\<And>msg. loads js (content resp) = Inl msg \<Longrightarrow>
                   out = Inr (''Error during registration: '' @ msg)"
    and text_out: "\<And>result msg. loads js (content resp) = Inr result \<Longrightarrow>
                   registration_failed str_other result (status_code resp) = Inr msg \<Longrightarrow>
                   out = Inr msg"
    by auto
  show "dyn_tokens c' = widen (tokens c)" by (simp add: same dynamic_def)
  show "c' = dynamic (c\<lparr>last_request_time := now2 e\<rparr>)" by (rule same)
  show "st' = st" by (rule same)
  {
    fix result er m
    assume "loads js (content resp) = Inr result
              \<and> field result ''error'' = Some er \<and> field er ''message'' = Some (JString m)"
    then show "out = Inr (''Registration failed: '' @ m @ '' (Status code: ''
                             @ str_int (status_code resp) @ '')'')"
      using text_out registration_failed_message by blast
  }
  {
    fix msg
    assume "loads js (content resp) = Inl msg"
    then show "out = Inr (''Error during registration: '' @ msg)"
      by (rule raised)
  }
qed

theorem registration_stores_or_reports_witness:
  \<open>Register_Users example_json example_str True fresh_client example_storage registering_env
       ''Register with callsign: ALPHA and faction: COSMIC''
     = (dynamic (fresh_client\<lparr>tokens := [(''ALPHA'', ''tok123'')], last_request_time := 21 / 2\<rparr>),
        example_storage\<lparr>present := True,
          contents := ''{'' @ [CHR 0x0A] @ ''  "ALPHA": "tok123"'' @ [CHR 0x0A] @ ''}''\<rparr>,
        [Sleep (3 / 10), Stamp (21 / 2), Http scenario_request],
        Inr ''Successfully registered agent ALPHA with faction COSMIC. Token has been stored for future use.'')
   \<and> get_token (fst (store_token example_json (fresh_client\<lparr>last_request_time := 21 / 2\<rparr>)
                        example_storage ''ALPHA'' ''tok123'')) ''ALPHA'' = Some ''tok123''
   \<and> dyn_tokens (dynamic (fresh_client\<lparr>tokens := [(''ALPHA'', ''tok123'')],
                                        last_request_time := 21 / 2\<rparr>))
       = widen (AList.update ''ALPHA'' ''tok123'' (tokens fresh_client))
   \<and> Register_Users example_json example_str True fresh_client example_storage rejecting_env
       ''Register with callsign: ALPHA and faction: COSMIC''
     = (dynamic (fresh_client\<lparr>last_request_time := 21 / 2\<rparr>), example_storage,
        [Sleep (3 / 10), Stamp (21 / 2), Http scenario_request],
        Inr ''Registration failed: Agent symbol has already been claimed. (Status code: 409)'')
   \<and> dyn_tokens (dynamic (fresh_client\<lparr>last_request_time := 21 / 2\<rparr>)) = widen (tokens fresh_client)\<close>
proof -
  let ?txt = "''Register with callsign: ALPHA and faction: COSMIC''"
  let ?evs = "[Sleep (3 / 10), Stamp (21 / 2), Http scenario_request]"
  let ?c' = "dynamic (fresh_client\<lparr>tokens := [(''ALPHA'', ''tok123'')], last_request_time := 21 / 2\<rparr>)"
  let ?st' = \<open>example_storage\<lparr>present := True,
               contents := ''{'' @ [CHR 0x0A] @ ''  "ALPHA": "tok123"'' @ [CHR 0x0A] @ ''}''\<rparr>\<close>
  let ?created = "\<lparr>status_code = 201, content = registration_body\<rparr>"
  let ?rejected = "\<lparr>status_code = 409, content = rejection_body\<rparr>"
  let ?data = "JObject [(''token'', JString ''tok123''),
                 (''agent'', JObject [(''symbol'', JString ''ALPHA''),
                                      (''startingFaction'', JString ''COSMIC'')])]"
  let ?agent = "JObject [(''symbol'', JString ''ALPHA''), (''startingFaction'', JString ''COSMIC'')]"
  let ?er = "JObject [(''message'', JString ''Agent symbol has already been claimed.'')]"
  have run1: "Register_Users example_json example_str True fresh_client example_storage
                registering_env ?txt
      = (?c', ?st', ?evs,
          Inr ''Successfully registered agent ALPHA with faction COSMIC. Token has been stored for future use.'')"
    by code_simp
  have run2: "Register_Users example_json example_str True fresh_client example_storage
                rejecting_env ?txt
      = (dynamic (fresh_client\<lparr>last_request_time := 21 / 2\<rparr>), example_storage, ?evs,
          Inr ''Registration failed: Agent symbol has already been claimed. (Status code: 409)'')"
    by code_simp
  have sent: "scenario_request \<in> set (requests_of ?evs)"
    by simp
  have resp1: "transport registering_env scenario_request = Inr ?created"
    by (simp add: registering_env_def)
  have resp2: "transport rejecting_env scenario_request = Inr ?rejected"
    by (simp add: rejecting_env_def)
  have body1: "loads example_json (content ?created) = Inr (JObject [(''data'', ?data)])"
    by code_simp
  have body2: "loads example_json (content ?rejected) = Inr (JObject [(''error'', ?er)])"
    by code_simp
  have fields1: "field (JObject [(''data'', ?data)]) ''data'' = Some ?data
      \<and> field ?data ''token'' = Some (JString ''tok123'')
      \<and> field ?data ''agent'' = Some ?agent
      \<and> field ?agent ''symbol'' = Some (JString ''ALPHA'')"
    by (simp add: field_def)
  have created: "status_code ?created = 201"
    by simp
  have rejected: "status_code ?rejected \<noteq> 201"
    by simp
  from registration_stores_or_reports [OF run1 sent resp1] created body1 fields1
  have stored: "get_token (fst (store_token example_json (fresh_client\<lparr>last_request_time := 21 / 2\<rparr>)
                        example_storage ''ALPHA'' ''tok123'')) ''ALPHA'' = Some ''tok123''"
    and held: "dyn_tokens ?c' = widen (AList.update ''ALPHA'' ''tok123'' (tokens fresh_client))"
    unfolding registering_env_def env.simps by blast+
  from registration_stores_or_reports [OF run2 sent resp2] rejected
  have kept: "dyn_tokens (dynamic (fresh_client\<lparr>last_request_time := 21 / 2\<rparr>))
                = widen (tokens fresh_client)"
    by blast
  from run1 run2 stored held kept show ?thesis by blast
qed

end
